theory Spec2Isabelle
  imports Complex_Main
begin

section \<open>Scalars: C++ \<open>double\<close>\<close>

text \<open>
  The engine computes on \<open>double\<close> (\<open>ActsScalar\<close>), the binary64 format of IEEE 754.
  A \<open>double\<close> is a finite real number or one of the three special values. Every
  arithmetic operation on finite values computes the exact real result and rounds it
  to the nearest binary64 number, ties to the even significand: 53 significant bits,
  gradual underflow below \<open>2 powr -1022\<close> with the spacing \<open>2 powr -1074\<close>, and overflow
  to an infinity when the rounded magnitude reaches \<open>2 ^ 1024\<close>. The special values follow
  IEEE 754: \<open>x / 0\<close> is an infinity for \<open>x \<noteq> 0\<close> and NaN for \<open>x = 0\<close>, \<open>0 * \<infinity>\<close> and
  \<open>\<infinity> - \<infinity>\<close> are NaN, NaN propagates, and every ordered comparison with NaN is false.
  There is one zero, read as \<open>+0\<close>.
\<close>

text \<open>Rounding of a real to the nearest integer, ties to even.\<close>

definition rne :: "real \<Rightarrow> int" where
  "rne x =
    (let f = \<lfloor>x\<rfloor>; d = x - of_int f
     in if d < 1 / 2 then f else if 1 / 2 < d then f + 1 else if even f then f else f + 1)"

text \<open>
  The exponent of the binade of \<open>x\<close>, not below that of the subnormal numbers, and the
  spacing of the binary64 numbers in that binade.
\<close>

definition binade :: "real \<Rightarrow> int" where
  "binade x = max \<lfloor>log 2 \<bar>x\<bar>\<rfloor> (- 1022)"

definition ulp :: "real \<Rightarrow> real" where
  "ulp x = 2 powr of_int (binade x - 52)"

datatype double = Fin real | PInf | NInf | NaN

definition round_double :: "real \<Rightarrow> double" where
  "round_double x =
    (if x = 0 then Fin 0
     else (let r = of_int (rne (x / ulp x)) * ulp x
           in if 2 ^ 1024 \<le> \<bar>r\<bar> then (if 0 < x then PInf else NInf) else Fin r))"

fun isfinite :: "double \<Rightarrow> bool" where
  "isfinite (Fin _) = True"
| "isfinite _ = False"


instantiation double :: "{zero, one, plus, uminus, times, divide, abs, ord}"
begin

definition zero_double :: double where
  "zero_double = Fin 0"

definition one_double :: double where
  "one_double = Fin 1"

fun uminus_double :: "double \<Rightarrow> double" where
  "uminus_double (Fin a) = Fin (- a)"
| "uminus_double PInf = NInf"
| "uminus_double NInf = PInf"
| "uminus_double NaN = NaN"

fun plus_double :: "double \<Rightarrow> double \<Rightarrow> double" where
  "plus_double (Fin a) (Fin b) = round_double (a + b)"
| "plus_double NaN _ = NaN"
| "plus_double _ NaN = NaN"
| "plus_double PInf NInf = NaN"
| "plus_double NInf PInf = NaN"
| "plus_double PInf _ = PInf"
| "plus_double _ PInf = PInf"
| "plus_double NInf _ = NInf"
| "plus_double _ NInf = NInf"

fun times_double :: "double \<Rightarrow> double \<Rightarrow> double" where
  "times_double (Fin a) (Fin b) = round_double (a * b)"
| "times_double NaN _ = NaN"
| "times_double _ NaN = NaN"
| "times_double (Fin a) PInf = (if a = 0 then NaN else if 0 < a then PInf else NInf)"
| "times_double (Fin a) NInf = (if a = 0 then NaN else if 0 < a then NInf else PInf)"
| "times_double PInf (Fin b) = (if b = 0 then NaN else if 0 < b then PInf else NInf)"
| "times_double NInf (Fin b) = (if b = 0 then NaN else if 0 < b then NInf else PInf)"
| "times_double PInf PInf = PInf"
| "times_double NInf NInf = PInf"
| "times_double PInf NInf = NInf"
| "times_double NInf PInf = NInf"

fun divide_double :: "double \<Rightarrow> double \<Rightarrow> double" where
  "divide_double (Fin a) (Fin b) =
     (if b = 0 then (if a = 0 then NaN else if 0 < a then PInf else NInf)
      else round_double (a / b))"
| "divide_double NaN _ = NaN"
| "divide_double _ NaN = NaN"
| "divide_double (Fin a) PInf = Fin 0"
| "divide_double (Fin a) NInf = Fin 0"
| "divide_double PInf (Fin b) = (if 0 \<le> b then PInf else NInf)"
| "divide_double NInf (Fin b) = (if 0 \<le> b then NInf else PInf)"
| "divide_double PInf PInf = NaN"
| "divide_double PInf NInf = NaN"
| "divide_double NInf PInf = NaN"
| "divide_double NInf NInf = NaN"

fun abs_double :: "double \<Rightarrow> double" where
  "abs_double (Fin a) = Fin \<bar>a\<bar>"
| "abs_double PInf = PInf"
| "abs_double NInf = PInf"
| "abs_double NaN = NaN"

fun less_double :: "double \<Rightarrow> double \<Rightarrow> bool" where
  "less_double (Fin a) (Fin b) = (a < b)"
| "less_double NaN _ = False"
| "less_double _ NaN = False"
| "less_double _ NInf = False"
| "less_double PInf _ = False"
| "less_double (Fin a) PInf = True"
| "less_double NInf (Fin b) = True"
| "less_double NInf PInf = True"

fun less_eq_double :: "double \<Rightarrow> double \<Rightarrow> bool" where
  "less_eq_double (Fin a) (Fin b) = (a \<le> b)"
| "less_eq_double NaN _ = False"
| "less_eq_double _ NaN = False"
| "less_eq_double NInf _ = True"
| "less_eq_double _ PInf = True"
| "less_eq_double (Fin a) NInf = False"
| "less_eq_double PInf (Fin b) = False"
| "less_eq_double PInf NInf = False"

instance ..

end

instantiation double :: "{minus, inverse}"
begin

definition minus_double :: "double \<Rightarrow> double \<Rightarrow> double" where
  "minus_double a b = a + (- b)"

definition inverse_double :: "double \<Rightarrow> double" where
  "inverse_double a = Fin 1 div a"

instance ..

end

text \<open>
  \<open>std::sqrt\<close>, correctly rounded: NaN on a negative argument, the argument itself on
  \<open>+\<infinity>\<close>. \<open>std::cos\<close> and \<open>std::sin\<close>, read only at \<open>0\<close> by the concrete inputs below.
\<close>

fun dsqrt :: "double \<Rightarrow> double" where
  "dsqrt (Fin a) = (if a < 0 then NaN else round_double (sqrt a))"
| "dsqrt PInf = PInf"
| "dsqrt NInf = NaN"
| "dsqrt NaN = NaN"

fun dcos :: "double \<Rightarrow> double" where
  "dcos (Fin a) = round_double (cos a)"
| "dcos _ = NaN"

fun dsin :: "double \<Rightarrow> double" where
  "dsin (Fin a) = round_double (sin a)"
| "dsin _ = NaN"

section \<open>Fixed-size vectors and matrices\<close>

text \<open>
  Eigen's fixed-size vectors are lists of coefficients, matrices are lists of rows.
  The sizes are static in the source (\<open>BoundVector\<close> 6, \<open>FreeVector\<close> 8, \<open>BoundMatrix\<close>
  6x6, \<open>FreeMatrix\<close> 8x8, \<open>BoundToFreeMatrix\<close> 8x6, \<open>FreeToBoundMatrix\<close> 6x8,
  \<open>FreeToPathMatrix\<close> 1x8, kept as its single row).
\<close>

type_synonym Vector = "double list"
type_synonym Matrix = "double list list"

type_synonym Vector3 = Vector
type_synonym BoundVector = Vector
type_synonym FreeVector = Vector
type_synonym FreeToPathMatrix = Vector
type_synonym BoundMatrix = Matrix
type_synonym BoundSymMatrix = Matrix
type_synonym FreeMatrix = Matrix
type_synonym FreeSymMatrix = Matrix
type_synonym BoundToFreeMatrix = Matrix
type_synonym FreeToBoundMatrix = Matrix

definition eBoundSize :: nat where "eBoundSize = 6"

text \<open>Parameter indices, as the literal indices of the Jacobian code fix them.\<close>

definition eBoundLoc0 :: nat where "eBoundLoc0 = 0"
definition eBoundLoc1 :: nat where "eBoundLoc1 = 1"
definition eBoundPhi :: nat where "eBoundPhi = 2"
definition eBoundTheta :: nat where "eBoundTheta = 3"
definition eBoundQOverP :: nat where "eBoundQOverP = 4"
definition eBoundTime :: nat where "eBoundTime = 5"

definition eFreePos0 :: nat where "eFreePos0 = 0"
definition eFreePos1 :: nat where "eFreePos1 = 1"
definition eFreePos2 :: nat where "eFreePos2 = 2"
definition eFreeTime :: nat where "eFreeTime = 3"
definition eFreeDir0 :: nat where "eFreeDir0 = 4"
definition eFreeDir1 :: nat where "eFreeDir1 = 5"
definition eFreeDir2 :: nat where "eFreeDir2 = 6"
definition eFreeQOverP :: nat where "eFreeQOverP = 7"

definition VectorZero :: "nat \<Rightarrow> Vector" where
  "VectorZero n = replicate n 0"

definition Zero :: "nat \<Rightarrow> nat \<Rightarrow> Matrix" where
  "Zero r c = replicate r (replicate c 0)"

definition Identity :: "nat \<Rightarrow> Matrix" where
  "Identity n = map (\<lambda>i. map (\<lambda>j. if i = j then 1 else 0) [0..<n]) [0..<n]"

text \<open>\<open>m(i, j) = v\<close> on a matrix, \<open>v.segment<n>(i)\<close> on a vector.\<close>

definition assign :: "Matrix \<Rightarrow> nat \<Rightarrow> nat \<Rightarrow> double \<Rightarrow> Matrix" where
  "assign m i j v = m[i := (m ! i)[j := v]]"

definition segment :: "nat \<Rightarrow> nat \<Rightarrow> Vector \<Rightarrow> Vector" where
  "segment n i v = take n (drop i v)"

definition dsum :: "double list \<Rightarrow> double" where
  "dsum xs = foldl (+) 0 xs"

definition dot :: "Vector \<Rightarrow> Vector \<Rightarrow> double" where
  "dot a b = dsum (map2 (*) a b)"

definition scale :: "double \<Rightarrow> Vector \<Rightarrow> Vector" where
  "scale c v = map ((*) c) v"

definition vadd :: "Vector \<Rightarrow> Vector \<Rightarrow> Vector" where
  "vadd a b = map2 (+) a b"

definition vsub :: "Vector \<Rightarrow> Vector \<Rightarrow> Vector" where
  "vsub a b = map2 (-) a b"

definition cols :: "Matrix \<Rightarrow> nat" where
  "cols m = (case m of [] \<Rightarrow> 0 | r # _ \<Rightarrow> length r)"

definition col :: "Matrix \<Rightarrow> nat \<Rightarrow> Vector" where
  "col m j = map (\<lambda>r. r ! j) m"

definition transpose_mat :: "Matrix \<Rightarrow> Matrix" where
  "transpose_mat m = map (col m) [0..<cols m]"

definition madd :: "Matrix \<Rightarrow> Matrix \<Rightarrow> Matrix" where
  "madd a b = map2 vadd a b"

definition mmul :: "Matrix \<Rightarrow> Matrix \<Rightarrow> Matrix" where
  "mmul a b = map (\<lambda>r. map (\<lambda>j. dot r (col b j)) [0..<cols b]) a"

text \<open>Column vector times row vector, \<open>u * v\<close> with \<open>v\<close> a one-row matrix.\<close>

definition outer :: "Vector \<Rightarrow> Vector \<Rightarrow> Matrix" where
  "outer u v = map (\<lambda>a. map (\<lambda>b. a * b) v) u"

section \<open>The covariance engine: Jacobians\<close>

text \<open>
  \<open>freeToCurvilinearJacobian\<close>. The branch tolerance \<open>s_curvilinearProjTolerance\<close> is
  declared outside the engine; it is the first argument here.
\<close>

definition freeToCurvilinearJacobian :: "double \<Rightarrow> Vector3 \<Rightarrow> FreeToBoundMatrix" where
  "freeToCurvilinearJacobian s_curvilinearProjTolerance direction =
    (let x = direction ! 0;
         y = direction ! 1;
         z = direction ! 2;
         cosTheta = z;
         sinTheta = dsqrt (x * x + y * y);
         invSinTheta = 1 / sinTheta;
         cosPhi = x * invSinTheta;
         sinPhi = y * invSinTheta;
         jacToCurv = Zero 6 8;
         jacToCurv =
           (if \<bar>cosTheta\<bar> < s_curvilinearProjTolerance then
              (let j = assign jacToCurv 0 0 (- sinPhi);
                   j = assign j 0 1 cosPhi;
                   j = assign j 1 0 (- cosPhi * cosTheta);
                   j = assign j 1 1 (- sinPhi * cosTheta);
                   j = assign j 1 2 sinTheta
               in j)
            else
              (let c = dsqrt (y * y + z * z);
                   invC = 1 / c;
                   j = assign jacToCurv 0 1 (- z * invC);
                   j = assign j 0 2 (y * invC);
                   j = assign j 1 0 c;
                   j = assign j 1 1 (- x * y * invC);
                   j = assign j 1 2 (- x * z * invC)
               in j));
         jacToCurv = assign jacToCurv 5 3 1;
         jacToCurv = assign jacToCurv 2 4 (- sinPhi * invSinTheta);
         jacToCurv = assign jacToCurv 2 5 (cosPhi * invSinTheta);
         jacToCurv = assign jacToCurv 3 4 (cosPhi * cosTheta);
         jacToCurv = assign jacToCurv 3 5 (sinPhi * cosTheta);
         jacToCurv = assign jacToCurv 3 6 (- sinTheta);
         jacToCurv = assign jacToCurv 4 7 1
     in jacToCurv)"


text \<open>\<open>v.segment<n>(i) = w\<close>, \<open>v * c\<close> for a scalar \<open>c\<close>, and \<open>m.block<r, c>(i, j)\<close>.\<close>

definition assign_segment :: "Vector \<Rightarrow> nat \<Rightarrow> Vector \<Rightarrow> Vector" where
  "assign_segment v i w = take i v @ w @ drop (i + length w) v"

definition vscale :: "Vector \<Rightarrow> double \<Rightarrow> Vector" where
  "vscale v c = map (\<lambda>a. a * c) v"

definition block :: "nat \<Rightarrow> nat \<Rightarrow> nat \<Rightarrow> nat \<Rightarrow> Matrix \<Rightarrow> Matrix" where
  "block r c i j m = map (\<lambda>row. take c (drop j row)) (take r (drop i m))"

section \<open>Results, exceptions and the interfaces the engine consumes\<close>

text \<open>
  \<open>Result<T>\<close> is a tagged success/failure value carrying a \<open>std::error_code\<close> on
  failure. Reading the value of a failed \<open>Result\<close> with \<open>value()\<close>, and reading an empty
  \<open>std::optional\<close> with \<open>value()\<close>, raise; the function is left at that point, so every
  engine function that has such a read returns an \<open>outcome\<close> next to the step state as
  it stands when the function is left.
\<close>

type_synonym error_code = int
type_synonym 'a Result = "error_code + 'a"

datatype exception = Result_value_on_error error_code | bad_optional_access

datatype 'a outcome = Returns 'a | Throws exception

text \<open>
  The engine reads a surface only through the operations below; their bodies belong to
  the geometry and to the parameter transform, so they are fields of the surface handed
  to the engine. The geometry context is passed to each of them unchanged and is part
  of the closure. \<open>transformBoundToFreeParameters\<close> returns a plain \<open>FreeVector\<close> in
  the source (the corrector multiplies its result by a weight directly), while
  \<open>transformFreeToBoundParameters\<close> and \<open>globalToLocal\<close> return a \<open>Result\<close>.
\<close>

record Surface =
  surface_freeToPathDerivative :: "FreeVector \<Rightarrow> FreeToPathMatrix"
  surface_freeToBoundJacobian :: "FreeVector \<Rightarrow> FreeToBoundMatrix"
  surface_boundToFreeJacobian :: "BoundVector \<Rightarrow> BoundToFreeMatrix"
  surface_globalToLocal :: "Vector3 \<Rightarrow> Vector3 \<Rightarrow> Vector Result"
  transformFreeToBoundParameters :: "FreeVector \<Rightarrow> BoundVector Result"
  transformBoundToFreeParameters :: "BoundVector \<Rightarrow> FreeVector"

text \<open>\<open>Eigen::JacobiSVD\<close> of a 6x6 matrix, as far as the corrector reads it.\<close>

record JacobiSVD =
  singularValues :: Vector
  matrixU :: Matrix
  matrixV :: Matrix

text \<open>
  The step state: the six objects that \<open>boundState\<close>, \<open>curvilinearState\<close> and the
  transport functions receive by mutable reference, under the parameter names of
  \<open>transportCovarianceToBound\<close>.
\<close>

record StepState =
  boundCovariance :: BoundSymMatrix
  freeCovariance :: FreeSymMatrix
  fullTransportJacobian :: BoundMatrix
  freeTransportJacobian :: FreeMatrix
  freeDerivatives :: FreeVector
  boundToFreeJacobian :: BoundToFreeMatrix

datatype BoundTrackParameters =
  BoundTrackParameters (referenceSurface: Surface) (parameters: BoundVector)
    (covariance: "BoundSymMatrix option")

datatype CurvilinearTrackParameters =
  CurvilinearTrackParameters (fourPosition: Vector) (unitDirection: Vector3)
    (qOverP: double) (curvilinearCovariance: "BoundSymMatrix option")

type_synonym BoundState =
  "BoundTrackParameters \<times> BoundMatrix \<times> double \<times> BoundVector \<times> BoundSymMatrix"

type_synonym CurvilinearState = "CurvilinearTrackParameters \<times> BoundMatrix \<times> double"

section \<open>The nonlinearity corrector, bound to free\<close>

text \<open>The square root of the covariance, from the factors of its decomposition.\<close>

definition covSqrt :: "(Matrix \<Rightarrow> JacobiSVD) \<Rightarrow> BoundSymMatrix \<Rightarrow> BoundSymMatrix" where
  "covSqrt svd boundCov =
    (let S = singularValues (svd boundCov);
         U = matrixU (svd boundCov);
         D = foldl (\<lambda>D i. assign D i i (dsqrt (S ! i))) (Zero 6 6) [0..<eBoundSize];
         UP = foldl (\<lambda>UP i. foldl (\<lambda>UP j. assign UP i j (U ! i ! j)) UP [0..<eBoundSize])
                (Zero 6 6) [0..<eBoundSize]
     in mmul (mmul UP D) (transpose_mat UP))"

text \<open>The sample points with their weights: the baseline, then two per axis.\<close>

definition sampledBoundParams ::
  "double \<Rightarrow> BoundSymMatrix \<Rightarrow> BoundVector \<Rightarrow> (BoundVector \<times> double) list" where
  "sampledBoundParams kappa cs boundParams =
    foldl (\<lambda>samples i.
        (let kappaSqrt = dsqrt kappa
         in samples
            @ [(vadd boundParams (vscale (col cs i) kappaSqrt), Fin (1 / 2) / kappa)]
            @ [(vsub boundParams (vscale (col cs i) kappaSqrt), Fin (1 / 2) / kappa)]))
      [(boundParams, (kappa - Fin (real eBoundSize)) / kappa)]
      [0..<eBoundSize]"

text \<open>
  The first loop transforms every sample and accumulates the weighted mean; the second
  runs over \<open>sampleSize\<close> indices into both vectors and accumulates the covariance.
\<close>

definition transformSamples ::
  "Surface \<Rightarrow> (BoundVector \<times> double) list \<Rightarrow> FreeVector list \<times> FreeVector" where
  "transformSamples surface samples =
    foldl (\<lambda>(transformedFreeParams, fpMean) (params, weight).
        (let fp = transformBoundToFreeParameters surface params
         in (transformedFreeParams @ [fp], vadd fpMean (scale weight fp))))
      ([], VectorZero 8) samples"

definition weightedCovariance ::
  "nat \<Rightarrow> (BoundVector \<times> double) list \<Rightarrow> FreeVector list \<Rightarrow> FreeVector \<Rightarrow> FreeSymMatrix" where
  "weightedCovariance sampleSize samples transformedFreeParams fpMean =
    foldl (\<lambda>fv isample.
        (let sigma = vsub (transformedFreeParams ! isample) fpMean
         in madd fv (outer (scale (snd (samples ! isample)) sigma) sigma)))
      (Zero 8 8) [0..<sampleSize]"

definition CorrectedBoundToFreeTransformer ::
  "(Matrix \<Rightarrow> JacobiSVD) \<Rightarrow> double \<Rightarrow> BoundVector \<Rightarrow> BoundSymMatrix \<Rightarrow> Surface
    \<Rightarrow> (FreeVector \<times> FreeSymMatrix) option" where
  "CorrectedBoundToFreeTransformer svd kappa boundParams boundCov surface =
    (let sampleSize = 2 * eBoundSize + 1;
         samples = sampledBoundParams kappa (covSqrt svd boundCov) boundParams;
         (transformedFreeParams, fpMean) = transformSamples surface samples
     in if transformedFreeParams = [] then None
        else Some (fpMean, weightedCovariance sampleSize samples transformedFreeParams fpMean))"

text \<open>The default value of the member \<open>kappa\<close>.\<close>

definition kappa_default :: double where
  "kappa_default = Fin 4"


section \<open>The covariance engine: transport\<close>

text \<open>
  \<open>boundToBoundJacobian\<close> writes its two output arguments; the pair returned here is
  \<open>(fullTransportJacobian, startBoundToFinalFreeJacobian)\<close>.
\<close>

definition boundToBoundJacobian ::
  "FreeVector \<Rightarrow> BoundToFreeMatrix \<Rightarrow> FreeMatrix \<Rightarrow> FreeVector \<Rightarrow> Surface
    \<Rightarrow> BoundMatrix \<times> BoundToFreeMatrix" where
  "boundToBoundJacobian freeParameters b2fJacobian transportJacobian derivatives surface =
    (let freeToPath = surface_freeToPathDerivative surface freeParameters;
         freeToBoundJacobian = surface_freeToBoundJacobian surface freeParameters;
         startBoundToFinalFreeJacobian =
           mmul (mmul (madd (Identity 8) (outer derivatives freeToPath)) transportJacobian)
             b2fJacobian
     in (mmul freeToBoundJacobian startBoundToFinalFreeJacobian,
         startBoundToFinalFreeJacobian))"

definition boundToCurvilinearJacobian ::
  "double \<Rightarrow> Vector3 \<Rightarrow> BoundToFreeMatrix \<Rightarrow> FreeMatrix \<Rightarrow> FreeVector \<Rightarrow> BoundMatrix" where
  "boundToCurvilinearJacobian tol direction b2fJacobian transportJacobian derivatives =
    (let freeToPath = VectorZero 8;
         freeToPath = assign_segment freeToPath eFreePos0 (scale (Fin (- 1)) direction);
         freeToBoundJacobian = freeToCurvilinearJacobian tol direction
     in mmul (mmul (mmul freeToBoundJacobian
                      (madd (Identity 8) (outer derivatives freeToPath)))
                transportJacobian)
          b2fJacobian)"

text \<open>
  \<open>reinitializeJacobians\<close> at a surface. The result of \<open>globalToLocal\<close> is only looked
  at to write a log record of level FATAL; \<open>reinitializeJacobians_log\<close> is that output.
\<close>

definition reinitializeJacobians ::
  "StepState \<Rightarrow> FreeVector \<Rightarrow> Surface \<Rightarrow> unit Result \<times> StepState" where
  "reinitializeJacobians st freeParameters surface =
    (let st = st\<lparr>freeTransportJacobian := Identity 8\<rparr>;
         st = st\<lparr>freeDerivatives := VectorZero 8\<rparr>;
         position = segment 3 eFreePos0 freeParameters;
         direction = segment 3 eFreeDir0 freeParameters;
         lpResult = surface_globalToLocal surface position direction
     in case transformFreeToBoundParameters surface freeParameters of
          Inl e \<Rightarrow> (Inl e, st)
        | Inr boundParameters \<Rightarrow>
            (Inr (), st\<lparr>boundToFreeJacobian :=
                          surface_boundToFreeJacobian surface boundParameters\<rparr>))"


text \<open>The overload of \<open>reinitializeJacobians\<close> for the curvilinear frame.\<close>

definition reinitializeJacobians_curvilinear :: "StepState \<Rightarrow> Vector3 \<Rightarrow> StepState" where
  "reinitializeJacobians_curvilinear st direction =
    (let st = st\<lparr>freeTransportJacobian := Identity 8\<rparr>;
         st = st\<lparr>freeDerivatives := VectorZero 8\<rparr>;
         j = Zero 8 6;
         x = direction ! 0;
         y = direction ! 1;
         z = direction ! 2;
         cosTheta = z;
         sinTheta = dsqrt (x * x + y * y);
         invSinTheta = 1 / sinTheta;
         cosPhi = x * invSinTheta;
         sinPhi = y * invSinTheta;
         j = assign j eFreePos0 eBoundLoc0 (- sinPhi);
         j = assign j eFreePos0 eBoundLoc1 (- cosPhi * cosTheta);
         j = assign j eFreePos1 eBoundLoc0 cosPhi;
         j = assign j eFreePos1 eBoundLoc1 (- sinPhi * cosTheta);
         j = assign j eFreePos2 eBoundLoc1 sinTheta;
         j = assign j eFreeTime eBoundTime 1;
         j = assign j eFreeDir0 eBoundPhi (- sinTheta * sinPhi);
         j = assign j eFreeDir0 eBoundTheta (cosTheta * cosPhi);
         j = assign j eFreeDir1 eBoundPhi (sinTheta * cosPhi);
         j = assign j eFreeDir1 eBoundTheta (cosTheta * sinPhi);
         j = assign j eFreeDir2 eBoundTheta (- sinTheta);
         j = assign j eFreeQOverP eBoundQOverP 1
     in st\<lparr>boundToFreeJacobian := j\<rparr>)"

text \<open>
  \<open>transportCovarianceToBound\<close>. The conversion result is tested only to print a
  message; its value is then read unconditionally as the corrector's argument. The
  \<open>Result\<close> of \<open>reinitializeJacobians\<close> is dropped.
\<close>

definition transportCovarianceToBound ::
  "(Matrix \<Rightarrow> JacobiSVD) \<Rightarrow> StepState \<Rightarrow> FreeVector \<Rightarrow> Surface \<Rightarrow> unit outcome \<times> StepState" where
  "transportCovarianceToBound svd st freeParameters surface =
    (let (full, startBoundToFinalFreeJacobian) =
           boundToBoundJacobian freeParameters (boundToFreeJacobian st)
             (freeTransportJacobian st) (freeDerivatives st) surface;
         st = st\<lparr>fullTransportJacobian := full\<rparr>
     in case transformFreeToBoundParameters surface freeParameters of
          Inl e \<Rightarrow> (Throws (Result_value_on_error e), st)
        | Inr boundParameters \<Rightarrow>
           (let correctedRes =
                  CorrectedBoundToFreeTransformer svd kappa_default boundParameters
                    (boundCovariance st) surface;
                st = (case correctedRes of
                        Some correctedValue \<Rightarrow> st\<lparr>freeCovariance := snd correctedValue\<rparr>
                      | None \<Rightarrow> st);
                freeToPath = surface_freeToPathDerivative surface freeParameters;
                startFreeToFinalFreeJacobian =
                  mmul (madd (Identity 8) (outer (freeDerivatives st) freeToPath))
                    (freeTransportJacobian st);
                st = st\<lparr>freeCovariance :=
                        mmul (mmul startFreeToFinalFreeJacobian (freeCovariance st))
                          (transpose_mat startFreeToFinalFreeJacobian)\<rparr>;
                freeToBoundJacobian = surface_freeToBoundJacobian surface freeParameters;
                st = st\<lparr>boundCovariance :=
                        mmul (mmul freeToBoundJacobian (freeCovariance st))
                          (transpose_mat freeToBoundJacobian)\<rparr>
            in (Returns (), snd (reinitializeJacobians st freeParameters surface))))"

definition transportCovarianceToCurvilinear ::
  "double \<Rightarrow> StepState \<Rightarrow> Vector3 \<Rightarrow> StepState" where
  "transportCovarianceToCurvilinear tol st direction =
    (let st = st\<lparr>fullTransportJacobian :=
                 boundToCurvilinearJacobian tol direction (boundToFreeJacobian st)
                   (freeTransportJacobian st) (freeDerivatives st)\<rparr>;
         st = st\<lparr>boundCovariance :=
                 mmul (mmul (fullTransportJacobian st) (boundCovariance st))
                   (transpose_mat (fullTransportJacobian st))\<rparr>
     in reinitializeJacobians_curvilinear st direction)"

section \<open>The covariance engine: bound and curvilinear states\<close>

text \<open>
  \<open>boundState\<close>. \<open>CorrectedFreeToBoundTransformer\<close> is declared in a header of its own
  and is an argument here. The bound covariance is printed through \<open>boundCov.value()\<close>
  as soon as the conversion has succeeded.
\<close>

definition boundState ::
  "(Matrix \<Rightarrow> JacobiSVD)
    \<Rightarrow> (FreeVector \<Rightarrow> FreeSymMatrix \<Rightarrow> FreeVector \<Rightarrow> Surface
          \<Rightarrow> (BoundVector \<times> BoundSymMatrix) option)
    \<Rightarrow> StepState \<Rightarrow> FreeVector \<Rightarrow> bool \<Rightarrow> double \<Rightarrow> Surface \<Rightarrow> bool
    \<Rightarrow> BoundState Result outcome \<times> StepState" where
  "boundState svd CorrectedFreeToBoundTransformer st params covTransport accumulatedPath
      surface nonlinearityCorrection =
    (let (transported, st) =
           (if covTransport then
              transportCovarianceToBound svd (st\<lparr>fullTransportJacobian := Identity 6\<rparr>)
                params surface
            else (Returns (), st))
     in case transported of
          Throws x \<Rightarrow> (Throws x, st)
        | Returns _ \<Rightarrow>
           (let boundCov =
                  (if boundCovariance st \<noteq> Zero 6 6 then Some (boundCovariance st) else None)
            in case transformFreeToBoundParameters surface params of
                 Inl e \<Rightarrow> (Returns (Inl e), st)
               | Inr bv \<Rightarrow>
                  (case boundCov of
                     None \<Rightarrow> (Throws bad_optional_access, st)
                   | Some printed \<Rightarrow>
                      (let correctedBp = VectorZero 6;
                           correctedBv = Zero 6 6;
                           correctedRes =
                             CorrectedFreeToBoundTransformer params (freeCovariance st)
                               (freeDerivatives st) surface;
                           (correctedBp, correctedBv) =
                             (case correctedRes of
                                Some correctedValue \<Rightarrow> correctedValue
                              | None \<Rightarrow> (correctedBp, correctedBv))
                       in (Returns (Inr (BoundTrackParameters surface bv boundCov,
                                         fullTransportJacobian st, accumulatedPath,
                                         correctedBp, correctedBv)),
                           st)))))"

definition curvilinearState ::
  "double \<Rightarrow> StepState \<Rightarrow> FreeVector \<Rightarrow> bool \<Rightarrow> double \<Rightarrow> CurvilinearState \<times> StepState" where
  "curvilinearState tol st params covTransport accumulatedPath =
    (let direction = segment 3 eFreeDir0 params;
         st = (if covTransport then
                 transportCovarianceToCurvilinear tol
                   (st\<lparr>fullTransportJacobian := Identity 6\<rparr>) direction
               else st);
         boundCov =
           (if boundCovariance st \<noteq> Zero 6 6 then Some (boundCovariance st) else None);
         pos4 = VectorZero 4;
         pos4 = pos4[0 := params ! eFreePos0];
         pos4 = pos4[1 := params ! eFreePos1];
         pos4 = pos4[2 := params ! eFreePos2];
         pos4 = pos4[3 := params ! eFreeTime];
         curvilinearParams =
           CurvilinearTrackParameters pos4 direction (params ! eFreeQOverP) boundCov
     in ((curvilinearParams, fullTransportJacobian st, accumulatedPath), st))"

section \<open>The surface's path derivative\<close>

text \<open>
  The placement data of \<open>Surface\<close> that \<open>Surface::transform\<close> reads: the surface's own
  4x4 placement and, when there is an associated detector element, that element's
  placement as a function of the geometry context.
\<close>

record 'g SurfaceData =
  m_transform :: Matrix
  m_associatedDetElement :: "('g \<Rightarrow> Matrix) option"

definition transform :: "'g SurfaceData \<Rightarrow> 'g \<Rightarrow> Matrix" where
  "transform s gctx =
    (case m_associatedDetElement s of
       Some detElement \<Rightarrow> detElement gctx
     | None \<Rightarrow> m_transform s)"

definition referenceFrame :: "'g SurfaceData \<Rightarrow> 'g \<Rightarrow> Vector3 \<Rightarrow> Vector3 \<Rightarrow> Matrix" where
  "referenceFrame s gctx position direction = block 3 3 0 0 (transform s gctx)"

definition freeToPathDerivative ::
  "'g SurfaceData \<Rightarrow> 'g \<Rightarrow> Vector3 \<Rightarrow> Vector3 \<Rightarrow> Vector" where
  "freeToPathDerivative s gctx position direction =
    (let rframe = referenceFrame s gctx position direction;
         measZAxis = col (block 3 1 0 2 rframe) 0;
         norm = Fin (- 1) / dot measZAxis direction;
         freeToPath = VectorZero 8;
         freeToPath = assign_segment freeToPath 0 (scale norm measZAxis)
     in freeToPath)"


section \<open>The angular blocks of the surface Jacobians\<close>

text \<open>\<open>m.block(i, j) = b\<close> for a block \<open>b\<close> given by its rows.\<close>

definition assign_block :: "Matrix \<Rightarrow> nat \<Rightarrow> nat \<Rightarrow> Matrix \<Rightarrow> Matrix" where
  "assign_block m i j b =
    foldl (\<lambda>m k. m[i + k := assign_segment (m ! (i + k)) j (b ! k)]) m [0..<length b]"

text \<open>
  \<open>Surface::initJacobianToGlobal\<close> and \<open>Surface::initJacobianToLocal\<close> fill the Jacobian
  they are handed; the filled matrix is returned.
\<close>

definition initJacobianToGlobal ::
  "'g SurfaceData \<Rightarrow> 'g \<Rightarrow> BoundToFreeMatrix \<Rightarrow> Vector3 \<Rightarrow> Vector3 \<Rightarrow> BoundVector
    \<Rightarrow> BoundToFreeMatrix" where
  "initJacobianToGlobal s gctx jacobian position direction pars =
    (let x = direction ! 0;
         y = direction ! 1;
         z = direction ! 2;
         cos_theta = z;
         sin_theta = dsqrt (x * x + y * y);
         inv_sin_theta = 1 / sin_theta;
         cos_phi = x * inv_sin_theta;
         sin_phi = y * inv_sin_theta;
         rframe = referenceFrame s gctx position direction;
         jacobian = assign_block jacobian 0 0 (block 3 2 0 0 rframe);
         jacobian = assign jacobian 3 eBoundTime 1;
         jacobian = assign jacobian 4 eBoundPhi ((- sin_theta) * sin_phi);
         jacobian = assign jacobian 4 eBoundTheta (cos_theta * cos_phi);
         jacobian = assign jacobian 5 eBoundPhi (sin_theta * cos_phi);
         jacobian = assign jacobian 5 eBoundTheta (cos_theta * sin_phi);
         jacobian = assign jacobian 6 eBoundTheta (- sin_theta);
         jacobian = assign jacobian 7 eBoundQOverP 1
     in jacobian)"

definition initJacobianToLocal ::
  "'g SurfaceData \<Rightarrow> 'g \<Rightarrow> FreeToBoundMatrix \<Rightarrow> Vector3 \<Rightarrow> Vector3 \<Rightarrow> FreeToBoundMatrix" where
  "initJacobianToLocal s gctx jacobian position direction =
    (let x = direction ! 0;
         y = direction ! 1;
         z = direction ! 2;
         cosTheta = z;
         sinTheta = dsqrt (x * x + y * y);
         invSinTheta = 1 / sinTheta;
         cosPhi = x * invSinTheta;
         sinPhi = y * invSinTheta;
         rframeT = transpose_mat (referenceFrame s gctx position direction);
         jacobian = assign_block jacobian 0 0 (block 2 3 0 0 rframeT);
         jacobian = assign jacobian eBoundTime 3 1;
         jacobian = assign jacobian eBoundPhi 4 (- sinPhi * invSinTheta);
         jacobian = assign jacobian eBoundPhi 5 (cosPhi * invSinTheta);
         jacobian = assign jacobian eBoundTheta 4 (cosPhi * cosTheta);
         jacobian = assign jacobian eBoundTheta 5 (sinPhi * cosTheta);
         jacobian = assign jacobian eBoundTheta 6 (- sinTheta);
         jacobian = assign jacobian eBoundQOverP 7 1
     in jacobian)"

section \<open>Concrete inputs\<close>

text \<open>
  The plane \<open>z = 0\<close> with the identity frame, read by a track along its normal, the
  polar axis: \<open>\<phi> = 0\<close>, \<open>\<theta> = 0\<close>. Its path derivative is the one of
  \<open>Surface::freeToPathDerivative\<close>, its Jacobians are the ones of \<open>initJacobianToLocal\<close>
  and \<open>initJacobianToGlobal\<close>, and its bound-to-free map builds the direction as
  \<open>(cos \<phi> sin \<theta>, sin \<phi> sin \<theta>, cos \<theta>)\<close>. The conversion to bound parameters and
  \<open>globalToLocal\<close> fail for a position off the plane, and the conversion returns the
  angles of the polar direction. \<open>free0\<close> is the track at the origin; \<open>free_off\<close> is the
  same track one unit in front of the plane. The step state \<open>state1\<close> is taken in the
  middle of a step: the transport Jacobian has a drift term and the path derivative is
  the direction. \<open>svd_of_zero\<close> is the decomposition of the zero matrix, \<open>svd_of_inf\<close>
  the one of \<open>cov_inf\<close>, a covariance with an infinite variance on the first local
  coordinate. On the polar axis \<open>sin \<theta> = 0\<close>, so the angular entries of the two surface
  Jacobians are not finite there; the statements on these inputs read the outcome, the
  transport Jacobian, the path derivatives and the free covariance, which do not
  depend on them.
\<close>

definition plane_placement :: "unit SurfaceData" where
  "plane_placement =
    \<lparr>m_transform = [[Fin 1, Fin 0, Fin 0, Fin 0], [Fin 0, Fin 1, Fin 0, Fin 0],
                    [Fin 0, Fin 0, Fin 1, Fin 0], [Fin 0, Fin 0, Fin 0, Fin 1]],
     m_associatedDetElement = None\<rparr>"

definition plane_boundToFree :: "BoundVector \<Rightarrow> FreeVector" where
  "plane_boundToFree bp =
     [bp ! 0, bp ! 1, Fin 0, bp ! 5,
      dcos (bp ! 2) * dsin (bp ! 3), dsin (bp ! 2) * dsin (bp ! 3), dcos (bp ! 3),
      bp ! 4]"

definition plane_freeToBound :: "FreeVector \<Rightarrow> BoundVector Result" where
  "plane_freeToBound fp =
     (if fp ! 2 = Fin 0 then Inr [fp ! 0, fp ! 1, Fin 0, Fin 0, fp ! 7, fp ! 3] else Inl 1)"

definition plane_surface :: Surface where
  "plane_surface =
    \<lparr>surface_freeToPathDerivative =
       (\<lambda>fp. freeToPathDerivative plane_placement ()
                (segment 3 eFreePos0 fp) (segment 3 eFreeDir0 fp)),
     surface_freeToBoundJacobian =
       (\<lambda>fp. initJacobianToLocal plane_placement () (Zero 6 8)
                (segment 3 eFreePos0 fp) (segment 3 eFreeDir0 fp)),
     surface_boundToFreeJacobian =
       (\<lambda>bp. initJacobianToGlobal plane_placement () (Zero 8 6)
                (segment 3 eFreePos0 (plane_boundToFree bp))
                (segment 3 eFreeDir0 (plane_boundToFree bp)) bp),
     surface_globalToLocal =
       (\<lambda>position direction.
          if position ! 2 = Fin 0 then Inr [position ! 0, position ! 1] else Inl 1),
     transformFreeToBoundParameters = plane_freeToBound,
     transformBoundToFreeParameters = plane_boundToFree\<rparr>"

definition free0 :: FreeVector where
  "free0 = [Fin 0, Fin 0, Fin 0, Fin 0, Fin 0, Fin 0, Fin 1, Fin 0]"

definition free_off :: FreeVector where
  "free_off = [Fin 0, Fin 0, Fin 1, Fin 0, Fin 0, Fin 0, Fin 1, Fin 0]"

definition bound0 :: BoundVector where
  "bound0 = [Fin 0, Fin 0, Fin 0, Fin 0, Fin 0, Fin 0]"

definition svd_of_zero :: "Matrix \<Rightarrow> JacobiSVD" where
  "svd_of_zero m = \<lparr>singularValues = VectorZero 6, matrixU = Identity 6, matrixV = Identity 6\<rparr>"

definition cov_inf :: BoundSymMatrix where
  "cov_inf = assign (Zero 6 6) 0 0 PInf"

definition svd_of_inf :: "Matrix \<Rightarrow> JacobiSVD" where
  "svd_of_inf m =
     \<lparr>singularValues = [PInf, Fin 0, Fin 0, Fin 0, Fin 0, Fin 0],
      matrixU = Identity 6, matrixV = Identity 6\<rparr>"

definition state1 :: StepState where
  "state1 =
    \<lparr>boundCovariance = Zero 6 6, freeCovariance = Identity 8,
     fullTransportJacobian = Identity 6,
     freeTransportJacobian = assign (Identity 8) 2 6 (Fin 1),
     freeDerivatives = [Fin 0, Fin 0, Fin 1, Fin 0, Fin 0, Fin 0, Fin 0, Fin 0],
     boundToFreeJacobian = surface_boundToFreeJacobian plane_surface bound0\<rparr>"

definition state2 :: StepState where
  "state2 = state1\<lparr>boundCovariance := Identity 6\<rparr>"

definition no_correction ::
  "FreeVector \<Rightarrow> FreeSymMatrix \<Rightarrow> FreeVector \<Rightarrow> Surface
    \<Rightarrow> (BoundVector \<times> BoundSymMatrix) option" where
  "no_correction fp cov derivatives surface = None"

section \<open>Rounding\<close>

lemma rne_of_int [simp]: "rne (of_int n) = n"
  by (simp add: rne_def)

lemma rne_ge_floor: "\<lfloor>x\<rfloor> \<le> rne x"
  by (simp add: rne_def Let_def)

lemma rne_le_ceil: "rne x \<le> \<lfloor>x\<rfloor> + 1"
  by (simp add: rne_def Let_def)

lemma rne_ge: "of_int n \<le> x \<Longrightarrow> n \<le> rne x"
  using rne_ge_floor [of x] by (meson le_floor_iff order_trans)

lemma rne_le: "x \<le> of_int n \<Longrightarrow> rne x \<le> n"
proof (cases "x = of_int n")
  case True
  then show ?thesis by simp
next
  case False
  assume "x \<le> of_int n"
  with False have "x < of_int n" by simp
  then have "\<lfloor>x\<rfloor> < n" by (simp add: floor_less_iff)
  then show ?thesis using rne_le_ceil [of x] by linarith
qed

lemma ulp_pos: "0 < ulp x"
  by (simp add: ulp_def)

lemma p2_int: "0 \<le> n \<Longrightarrow> 2 powr real_of_int n = of_int (2 ^ nat n)"
  by (simp add: powr_real_of_int)

lemma binade_le:
  assumes "x \<noteq> 0" and "\<bar>x\<bar> \<le> 2 powr of_int k" and "- 1022 \<le> k"
  shows "binade x \<le> k"
proof -
  have "log 2 \<bar>x\<bar> \<le> of_int k" using assms(1,2) by (simp add: log_le_iff)
  then have "\<lfloor>log 2 \<bar>x\<bar>\<rfloor> \<le> k" by (simp add: floor_le_iff)
  then show ?thesis using assms(3) by (simp add: binade_def)
qed

lemma binade_ge:
  assumes "2 powr of_int j \<le> \<bar>x\<bar>"
  shows "j \<le> binade x"
proof -
  have "0 < \<bar>x\<bar>" using assms by (smt (verit) powr_gt_zero)
  then have "of_int j \<le> log 2 \<bar>x\<bar>" using assms by (simp add: le_log_iff)
  then have "j \<le> \<lfloor>log 2 \<bar>x\<bar>\<rfloor>" by (simp add: le_floor_iff)
  then show ?thesis by (simp add: binade_def)
qed

lemma binade_lower:
  assumes "x \<noteq> 0" and "- 1022 < binade x"
  shows "2 powr of_int (binade x) \<le> \<bar>x\<bar>"
proof -
  have "binade x = \<lfloor>log 2 \<bar>x\<bar>\<rfloor>"
    using assms(2) by (simp add: binade_def max_def split: if_splits)
  then show ?thesis
    using assms(1) floor_log_eq_powr_iff [of "\<bar>x\<bar>" 2 "binade x"] by simp
qed

lemma binade_eq:
  assumes "2 powr of_int e \<le> \<bar>x\<bar>" and "\<bar>x\<bar> < 2 powr of_int (e + 1)" and "- 1022 \<le> e"
  shows "binade x = e"
proof -
  have "0 < \<bar>x\<bar>" using assms(1) by (smt (verit) powr_gt_zero)
  then have "\<lfloor>log 2 \<bar>x\<bar>\<rfloor> = e"
    using assms(1,2) floor_log_eq_powr_iff [of "\<bar>x\<bar>" 2 e] by simp
  then show ?thesis using assms(3) by (simp add: binade_def)
qed

text \<open>Rounding keeps a magnitude below a power of two that is a binary64 number.\<close>

lemma round_double_abs_le:
  assumes "\<bar>x\<bar> \<le> 2 powr of_int k" and "- 1022 \<le> k" and "k \<le> 1023"
  shows "\<exists>r. round_double x = Fin r \<and> \<bar>r\<bar> \<le> 2 powr of_int k"
proof (cases "x = 0")
  case True
  then show ?thesis by (simp add: round_double_def)
next
  case False
  define e where "e = binade x"
  define u where "u = ulp x"
  define N where "N = (2::int) ^ nat (k - e + 52)"
  have ek: "e \<le> k" unfolding e_def using False assms(1,2) by (rule binade_le)
  have u: "u = 2 powr of_int (e - 52)" and upos: "0 < u"
    by (simp_all add: u_def ulp_def e_def)
  have "real_of_int N = 2 powr real_of_int (k - e + 52)"
    unfolding N_def using ek p2_int [of "k - e + 52"] by simp
  also have "\<dots> = 2 powr of_int k / u"
    unfolding u by (simp add: powr_diff [symmetric] algebra_simps)
  finally have N: "of_int N * u = 2 powr of_int k" using upos by simp
  have "\<bar>x / u\<bar> \<le> of_int N"
    using assms(1) upos N by (simp add: field_simps)
  then have "x / u \<le> of_int N" and "- real_of_int N \<le> x / u"
    by linarith+
  then have "x / u \<le> of_int N" and "of_int (- N) \<le> x / u"
    by simp_all
  then have "rne (x / u) \<le> N" and "- N \<le> rne (x / u)"
    by (auto intro: rne_le rne_ge)
  then have "\<bar>real_of_int (rne (x / u))\<bar> \<le> of_int N" by linarith
  then have "\<bar>of_int (rne (x / u)) * u\<bar> \<le> of_int N * u"
    using upos by (simp add: abs_mult mult_right_mono)
  then have r: "\<bar>of_int (rne (x / u)) * u\<bar> \<le> 2 powr of_int k" using N by simp
  have "2 powr of_int k \<le> 2 powr (1023::real)"
    using assms(3) by (intro powr_mono) auto
  also have "\<dots> < 2 ^ 1024" by (simp add: powr_numeral del: power_numeral)
  finally have "\<not> 2 ^ 1024 \<le> \<bar>of_int (rne (x / u)) * u\<bar>" using r by linarith
  then show ?thesis
    using False r by (simp add: round_double_def Let_def u_def [symmetric])
qed

lemma round_double_nonneg:
  assumes "0 \<le> x" and "round_double x = Fin r"
  shows "0 \<le> r"
proof (cases "x = 0")
  case True
  then show ?thesis using assms(2) by (simp add: round_double_def)
next
  case False
  have "of_int 0 \<le> x / ulp x" using assms(1) ulp_pos [of x] by simp
  then have "0 \<le> rne (x / ulp x)" by (rule rne_ge)
  then have "0 \<le> of_int (rne (x / ulp x)) * ulp x" using ulp_pos [of x] by simp
  then show ?thesis
    using False assms(2) by (simp add: round_double_def Let_def split: if_splits)
qed

text \<open>Rounding keeps a positive value above a power of two that is a binary64 number.\<close>

lemma round_double_ge:
  assumes "2 powr of_int j \<le> x" and "- 1074 \<le> j" and "round_double x = Fin r"
  shows "2 powr of_int j \<le> r"
proof -
  have xpos: "0 < x" using assms(1) by (smt (verit) powr_gt_zero)
  define e where "e = binade x"
  define u where "u = ulp x"
  have u: "u = 2 powr of_int (e - 52)" and upos: "0 < u"
    by (simp_all add: u_def ulp_def e_def)
  have je: "j \<le> e" unfolding e_def using assms(1) xpos by (intro binade_ge) simp
  have r: "r = of_int (rne (x / u)) * u"
    using assms(3) xpos by (simp add: round_double_def Let_def u_def split: if_splits)
  show ?thesis
  proof (cases "0 \<le> j - e + 52")
    case True
    define N where "N = (2::int) ^ nat (j - e + 52)"
    have "real_of_int N = 2 powr real_of_int (j - e + 52)"
      unfolding N_def using True p2_int [of "j - e + 52"] by simp
    also have "\<dots> = 2 powr of_int j / u"
      unfolding u by (simp add: powr_diff [symmetric] algebra_simps)
    finally have N: "of_int N * u = 2 powr of_int j" using upos by simp
    have "of_int N \<le> x / u" using assms(1) upos N by (simp add: field_simps)
    then have "N \<le> rne (x / u)" by (rule rne_ge)
    then have "of_int N * u \<le> of_int (rne (x / u)) * u"
      using upos by (simp add: mult_right_mono)
    then show ?thesis using N r by simp
  next
    case False
    then have e: "- 1022 < e" using assms(2) by linarith
    have "2 powr of_int e \<le> \<bar>x\<bar>"
      unfolding e_def using xpos e by (intro binade_lower) (simp_all add: e_def)
    then have xe: "2 powr of_int e \<le> x" using xpos by simp
    define N where "N = (2::int) ^ 52"
    have "real_of_int N = 2 powr real_of_int 52"
      unfolding N_def using p2_int [of 52] by simp
    also have "\<dots> = 2 powr of_int e / u"
      unfolding u by (simp add: powr_diff [symmetric] algebra_simps)
    finally have N: "of_int N * u = 2 powr of_int e" using upos by simp
    have "of_int N \<le> x / u" using xe upos N by (simp add: field_simps)
    then have "N \<le> rne (x / u)" by (rule rne_ge)
    then have "of_int N * u \<le> of_int (rne (x / u)) * u"
      using upos by (simp add: mult_right_mono)
    then have "2 powr of_int e \<le> r" using N r by simp
    moreover have "2 powr real_of_int j \<le> 2 powr real_of_int e"
      using je by (intro powr_mono) auto
    ultimately show ?thesis by linarith
  qed
qed

lemma round_double_between:
  assumes "2 powr of_int j \<le> x" and "x \<le> 2 powr of_int k"
    and "- 1074 \<le> j" and "- 1022 \<le> k" and "k \<le> 1023"
  shows "\<exists>r. round_double x = Fin r \<and> 2 powr of_int j \<le> r \<and> r \<le> 2 powr of_int k"
proof -
  have "0 < x" using assms(1) by (smt (verit) powr_gt_zero)
  then have "\<bar>x\<bar> \<le> 2 powr of_int k" using assms(2) by simp
  then obtain r where r: "round_double x = Fin r" "\<bar>r\<bar> \<le> 2 powr of_int k"
    using round_double_abs_le assms(4,5) by blast
  moreover have "2 powr of_int j \<le> r" using assms(1,3) r(1) by (rule round_double_ge)
  ultimately show ?thesis by auto
qed

text \<open>Evaluation of a rounding whose binade is known.\<close>

lemma round_double_eval:
  assumes "2 powr of_int e \<le> \<bar>x\<bar>" and "\<bar>x\<bar> < 2 powr of_int (e + 1)" and "- 1022 \<le> e"
    and "rne (x / 2 powr of_int (e - 52)) = n"
    and "\<bar>real_of_int n * 2 powr of_int (e - 52)\<bar> < 2 ^ 1024"
  shows "round_double x = Fin (real_of_int n * 2 powr of_int (e - 52))"
proof -
  have "x \<noteq> 0" using assms(1) by (smt (verit) powr_gt_zero)
  moreover have "ulp x = 2 powr of_int (e - 52)"
    using binade_eq [OF assms(1-3)] by (simp add: ulp_def)
  ultimately show ?thesis
    using assms(4,5) by (simp add: round_double_def Let_def)
qed

lemma round_double_exact:
  assumes "2 powr of_int e \<le> \<bar>x\<bar>" and "\<bar>x\<bar> < 2 powr of_int (e + 1)"
    and "- 1022 \<le> e" and "e \<le> 1023"
    and "x / 2 powr of_int (e - 52) = of_int n"
  shows "round_double x = Fin x"
proof -
  have n: "real_of_int n * 2 powr of_int (e - 52) = x"
    using assms(5) by (simp add: field_simps)
  have "2 powr of_int (e + 1) \<le> 2 powr (1024::real)"
    using assms(4) by (intro powr_mono) auto
  also have "\<dots> = 2 ^ 1024" by (simp add: powr_numeral del: power_numeral)
  finally have "\<bar>x\<bar> < 2 ^ 1024" using assms(2) by linarith
  then show ?thesis
    using round_double_eval [OF assms(1-3), of n] assms(5) n by simp
qed

text \<open>The small binary fractions of the concrete inputs are binary64 numbers.\<close>

lemma rd_0: "round_double 0 = Fin 0"
  by (simp add: round_double_def)

lemma rd_1: "round_double 1 = Fin 1"
  by (rule round_double_exact [of 0 _ "2 ^ 52"]) (simp_all add: powr_neg_numeral)

lemma rd_m1: "round_double (- 1) = Fin (- 1)"
  by (rule round_double_exact [of 0 _ "- (2 ^ 52)"]) (simp_all add: powr_neg_numeral)

lemma rd_2: "round_double 2 = Fin 2"
  by (rule round_double_exact [of 1 _ "2 ^ 52"]) (simp_all add: powr_neg_numeral)

lemma rd_m2: "round_double (- 2) = Fin (- 2)"
  by (rule round_double_exact [of 1 _ "- (2 ^ 52)"]) (simp_all add: powr_neg_numeral)

lemma rd_m3: "round_double (- 3) = Fin (- 3)"
  by (rule round_double_exact [of 1 _ "- (3 * 2 ^ 51)"]) (simp_all add: powr_neg_numeral)

lemma rd_1_8: "round_double (1 / 8) = Fin (1 / 8)"
  by (rule round_double_exact [of "- 3" _ "2 ^ 52"]) (simp_all add: powr_neg_numeral)

lemma rd_m1_8: "round_double (- (1 / 8)) = Fin (- (1 / 8))"
  by (rule round_double_exact [of "- 3" _ "- (2 ^ 52)"]) (simp_all add: powr_neg_numeral)

lemma rd_1_4: "round_double (1 / 4) = Fin (1 / 4)"
  by (rule round_double_exact [of "- 2" _ "2 ^ 52"]) (simp_all add: powr_neg_numeral)

lemma rd_m1_4: "round_double (- (1 / 4)) = Fin (- (1 / 4))"
  by (rule round_double_exact [of "- 2" _ "- (2 ^ 52)"]) (simp_all add: powr_neg_numeral)

lemma rd_3_8: "round_double (3 / 8) = Fin (3 / 8)"
  by (rule round_double_exact [of "- 2" _ "3 * 2 ^ 51"]) (simp_all add: powr_neg_numeral)

lemma rd_m3_8: "round_double (- (3 / 8)) = Fin (- (3 / 8))"
  by (rule round_double_exact [of "- 2" _ "- (3 * 2 ^ 51)"]) (simp_all add: powr_neg_numeral)

lemma rd_1_2: "round_double (1 / 2) = Fin (1 / 2)"
  by (rule round_double_exact [of "- 1" _ "2 ^ 52"]) (simp_all add: powr_neg_numeral)

lemma rd_m1_2: "round_double (- (1 / 2)) = Fin (- (1 / 2))"
  by (rule round_double_exact [of "- 1" _ "- (2 ^ 52)"]) (simp_all add: powr_neg_numeral)

lemma rd_5_8: "round_double (5 / 8) = Fin (5 / 8)"
  by (rule round_double_exact [of "- 1" _ "5 * 2 ^ 50"]) (simp_all add: powr_neg_numeral)

lemma rd_3_4: "round_double (3 / 4) = Fin (3 / 4)"
  by (rule round_double_exact [of "- 1" _ "3 * 2 ^ 51"]) (simp_all add: powr_neg_numeral)

lemma rd_7_8: "round_double (7 / 8) = Fin (7 / 8)"
  by (rule round_double_exact [of "- 1" _ "7 * 2 ^ 50"]) (simp_all add: powr_neg_numeral)

lemmas rd_simps = rd_0 rd_1 rd_m1 rd_2 rd_m2 rd_m3 rd_1_8 rd_m1_8 rd_1_4 rd_m1_4 rd_3_8
  rd_m3_8 rd_1_2 rd_m1_2 rd_5_8 rd_3_4 rd_7_8


section \<open>Evaluation lemmas\<close>

lemmas la_defs = mmul_def madd_def outer_def dot_def dsum_def col_def cols_def
  transpose_mat_def Identity_def Zero_def VectorZero_def assign_def scale_def vadd_def
  vsub_def vscale_def

lemmas jac_eval = freeToCurvilinearJacobian_def Zero_def assign_def Let_def zero_double_def
  one_double_def numeral_eq_Suc

lemma upt6: "[0..<6] = [0, 1, 2, 3, 4, 5]"
  by (simp add: upt_rec)

lemma upt8: "[0..<8] = [0, 1, 2, 3, 4, 5, 6, 7]"
  by (simp add: upt_rec)

lemma upt13: "[0..<13] = [0, 1, 2, 3, 4, 5, 6, 7, 8, 9, 10, 11, 12]"
  by (simp add: upt_rec)

lemma Identity6_not_Zero: "Identity 6 \<noteq> Zero 6 6"
  by (simp add: la_defs upt6 zero_double_def one_double_def numeral_eq_Suc)

section \<open>The free-to-curvilinear Jacobian\<close>

text \<open>Bounds of single rounded operations on values of magnitude at most 1.\<close>

lemma fin_times_le:
  assumes "\<bar>a\<bar> \<le> 2 powr of_int i" and "\<bar>b\<bar> \<le> 2 powr of_int j"
    and "- 1022 \<le> i + j" and "i + j \<le> 1023"
  shows "\<exists>r. Fin a * Fin b = Fin r \<and> \<bar>r\<bar> \<le> 2 powr of_int (i + j)"
proof -
  have "\<bar>a * b\<bar> \<le> 2 powr of_int i * 2 powr of_int j"
    using assms(1,2) by (simp add: abs_mult mult_mono)
  then have "\<bar>a * b\<bar> \<le> 2 powr of_int (i + j)" by (simp add: powr_add)
  from round_double_abs_le [OF this assms(3,4)] show ?thesis by simp
qed

lemma fin_times_unit:
  assumes "\<bar>a\<bar> \<le> 1" and "\<bar>b\<bar> \<le> 2 powr of_int k" and "- 1022 \<le> k" and "k \<le> 1023"
  shows "\<exists>r. Fin a * Fin b = Fin r \<and> \<bar>r\<bar> \<le> 2 powr of_int k"
  using fin_times_le [of a 0 b k] assms by simp

lemma fin_times_unit2:
  assumes "\<bar>a\<bar> \<le> 2 powr of_int k" and "\<bar>b\<bar> \<le> 1" and "- 1022 \<le> k" and "k \<le> 1023"
  shows "\<exists>r. Fin a * Fin b = Fin r \<and> \<bar>r\<bar> \<le> 2 powr of_int k"
  using fin_times_le [of a k b 0] assms by simp

lemma fin_times_unit_unit:
  assumes "\<bar>a\<bar> \<le> 1" and "\<bar>b\<bar> \<le> 1"
  shows "\<exists>r. Fin a * Fin b = Fin r \<and> \<bar>r\<bar> \<le> 1"
  using fin_times_le [of a 0 b 0] assms by simp

lemma fin_square_nonneg:
  assumes "\<bar>a\<bar> \<le> 1"
  shows "\<exists>r. Fin a * Fin a = Fin r \<and> 0 \<le> r \<and> r \<le> 1"
proof -
  obtain r where r: "Fin a * Fin a = Fin r" "\<bar>r\<bar> \<le> 1"
    using fin_times_unit_unit [OF assms assms] by blast
  then have "round_double (a * a) = Fin r" by simp
  then have "0 \<le> r" using round_double_nonneg [of "a * a" r] by simp
  then show ?thesis using r by auto
qed

lemma powr_double: "(2::real) powr of_int (2 * j) = 2 powr of_int j * 2 powr of_int j"
proof -
  have "(2::real) powr of_int (2 * j) = 2 powr (of_int j + of_int j)" by simp
  also have "\<dots> = 2 powr of_int j * 2 powr of_int j" by (rule powr_add)
  finally show ?thesis .
qed

lemma fin_square_ge:
  assumes "2 powr of_int j \<le> \<bar>a\<bar>" and "- 537 \<le> j" and "Fin a * Fin a = Fin r"
  shows "2 powr of_int (2 * j) \<le> r"
proof -
  have "2 powr of_int j * 2 powr of_int j \<le> \<bar>a\<bar> * \<bar>a\<bar>"
    using assms(1) by (intro mult_mono) simp_all
  then have "2 powr of_int (2 * j) \<le> a * a"
    unfolding powr_double by simp
  moreover have "- 1074 \<le> 2 * j" using assms(2) by simp
  moreover have "round_double (a * a) = Fin r" using assms(3) by simp
  ultimately show ?thesis by (rule round_double_ge)
qed

lemma fin_plus_ge:
  assumes "0 \<le> a" and "a \<le> 1" and "0 \<le> b" and "b \<le> 1"
    and "2 powr of_int i \<le> a \<or> 2 powr of_int i \<le> b" and "- 1074 \<le> i"
  shows "\<exists>s. Fin a + Fin b = Fin s \<and> 2 powr of_int i \<le> s \<and> s \<le> 2"
proof -
  have "2 powr of_int i \<le> a + b" using assms(1,3,5) by linarith
  moreover have "a + b \<le> 2 powr of_int 1" using assms(2,4) by simp
  ultimately show ?thesis
    using round_double_between [of i "a + b" 1] assms(6) by simp
qed

lemma dsqrt_ge:
  assumes "2 powr of_int (2 * j) \<le> s" and "s \<le> 2" and "- 537 \<le> j"
  shows "\<exists>t. dsqrt (Fin s) = Fin t \<and> 2 powr of_int j \<le> t \<and> t \<le> 2"
proof -
  have s0: "0 < s" using assms(1) by (smt (verit) powr_gt_zero)
  have "((2::real) powr of_int j)\<^sup>2 = 2 powr of_int (2 * j)"
    unfolding powr_double by (simp add: power2_eq_square)
  then have "2 powr of_int j \<le> sqrt s" using assms(1) by (intro real_le_rsqrt) simp
  moreover have "sqrt s \<le> 2 powr of_int 1" using assms(2) s0 by (intro real_le_lsqrt) simp_all
  ultimately show ?thesis
    using round_double_between [of j "sqrt s" 1] assms(3) s0 by simp
qed

lemma fin_inverse_le:
  assumes "2 powr of_int j \<le> t" and "- 1023 \<le> j" and "j \<le> 1022"
  shows "\<exists>v. Fin 1 / Fin t = Fin v \<and> \<bar>v\<bar> \<le> 2 powr of_int (- j)"
proof -
  have t0: "0 < t" using assms(1) by (smt (verit) powr_gt_zero)
  have "1 / t \<le> 1 / 2 powr of_int j"
    using assms(1) t0 by (intro divide_left_mono) simp_all
  then have "\<bar>1 / t\<bar> \<le> 2 powr of_int (- j)" using t0 by (simp add: powr_minus field_simps)
  from round_double_abs_le [OF this] assms(2,3) t0 show ?thesis by simp
qed

text \<open>
  Each branch returns finite entries as soon as the operations it is built from return
  finite values.
\<close>

lemma rows_finite_standard:
  assumes "\<bar>Z\<bar> < tol"
    and "dsqrt (X * X + Y * Y) = Fin st" and "Fin 1 / Fin st = Fin iv"
    and "X * Fin iv = Fin cp" and "Y * Fin iv = Fin sp"
    and "Fin (- cp) * Z = Fin e10" and "Fin (- sp) * Z = Fin e11"
    and "Fin (- sp) * Fin iv = Fin e24" and "Fin cp * Fin iv = Fin e25"
    and "Fin cp * Z = Fin e34" and "Fin sp * Z = Fin e35"
  shows "list_all (list_all isfinite) (freeToCurvilinearJacobian tol [X, Y, Z])"
  using assms
  by (simp add: jac_eval del: times_double.simps divide_double.simps plus_double.simps)

lemma rows_finite_grazing:
  assumes "\<not> \<bar>Z\<bar> < tol"
    and "dsqrt (X * X + Y * Y) = Fin st" and "Fin 1 / Fin st = Fin iv"
    and "X * Fin iv = Fin cp" and "Y * Fin iv = Fin sp"
    and "dsqrt (Y * Y + Z * Z) = Fin c" and "Fin 1 / Fin c = Fin ic"
    and "- Z * Fin ic = Fin g01" and "Y * Fin ic = Fin g02"
    and "- X * Y * Fin ic = Fin g11" and "- X * Z * Fin ic = Fin g12"
    and "Fin (- sp) * Fin iv = Fin e24" and "Fin cp * Fin iv = Fin e25"
    and "Fin cp * Z = Fin e34" and "Fin sp * Z = Fin e35"
  shows "list_all (list_all isfinite) (freeToCurvilinearJacobian tol [X, Y, Z])"
  using assms
  by (simp add: jac_eval del: times_double.simps divide_double.simps plus_double.simps)

text \<open>
  Claim C2, as the code has it: for every direction whose components are binary64 numbers
  of magnitude at most 1 with \<open>x\<^sup>2 + y\<^sup>2 + z\<^sup>2\<close> within \<open>2\<^sup>-\<^sup>4\<^sup>0\<close> of 1 (a unit direction up
  to rounding), that is away from the polar axis (\<open>|x|\<close> or \<open>|y|\<close> at least \<open>2\<^sup>-\<^sup>5\<^sup>0\<^sup>0\<close>), and
  every branch tolerance of at least \<open>2\<^sup>-\<^sup>5\<^sup>0\<^sup>0\<close> that differs from \<open>|z|\<close>,
  \<open>freeToCurvilinearJacobian\<close> returns a matrix all of whose entries are finite, in the
  standard branch and in the grazing branch, every operation rounded to binary64.
\<close>

theorem freeToCurvilinearJacobian_finite_away_from_poles:
  assumes x: "\<bar>x\<bar> \<le> 1" and y: "\<bar>y\<bar> \<le> 1" and z: "\<bar>z\<bar> \<le> 1"
    and unit: "\<bar>x * x + y * y + z * z - 1\<bar> \<le> 1 / 2 ^ 40"
    and xy: "1 / 2 ^ 500 \<le> \<bar>x\<bar> \<or> 1 / 2 ^ 500 \<le> \<bar>y\<bar>"
    and t: "1 / 2 ^ 500 \<le> t" and zt: "\<bar>z\<bar> \<noteq> t"
  shows "list_all (list_all isfinite) (freeToCurvilinearJacobian (Fin t) [Fin x, Fin y, Fin z])"
proof -
  define j :: int where "j = - 500"
  have L: "1 / 2 ^ 500 = 2 powr real_of_int j"
    by (simp add: j_def powr_neg_numeral)
  have j: "- 537 \<le> j" "- 1074 \<le> 2 * j" "- 1023 \<le> j" "j \<le> 1022" "- 1022 \<le> - j"
    "- j \<le> 1023" "- 1022 \<le> - j + - j" "- j + - j \<le> 1023"
    by (simp_all add: j_def)
  obtain a where a: "Fin x * Fin x = Fin a" "0 \<le> a" "a \<le> 1"
    using fin_square_nonneg [OF x] by blast
  obtain b where b: "Fin y * Fin y = Fin b" "0 \<le> b" "b \<le> 1"
    using fin_square_nonneg [OF y] by blast
  obtain c where c: "Fin z * Fin z = Fin c" "0 \<le> c" "c \<le> 1"
    using fin_square_nonneg [OF z] by blast
  have ab: "2 powr of_int (2 * j) \<le> a \<or> 2 powr of_int (2 * j) \<le> b"
    using xy fin_square_ge [OF _ j(1) a(1)] fin_square_ge [OF _ j(1) b(1)]
    unfolding L by blast
  obtain s where s: "Fin a + Fin b = Fin s" "2 powr of_int (2 * j) \<le> s" "s \<le> 2"
    using fin_plus_ge [OF a(2,3) b(2,3) ab j(2)] by blast
  obtain st where st: "dsqrt (Fin s) = Fin st" "2 powr of_int j \<le> st" "st \<le> 2"
    using dsqrt_ge [OF s(2,3) j(1)] by blast
  obtain iv where iv: "Fin 1 / Fin st = Fin iv" "\<bar>iv\<bar> \<le> 2 powr of_int (- j)"
    using fin_inverse_le [OF st(2) j(3,4)] by blast
  obtain cp where cp: "Fin x * Fin iv = Fin cp" "\<bar>cp\<bar> \<le> 2 powr of_int (- j)"
    using fin_times_unit [OF x iv(2) j(5,6)] by blast
  obtain sp where sp: "Fin y * Fin iv = Fin sp" "\<bar>sp\<bar> \<le> 2 powr of_int (- j)"
    using fin_times_unit [OF y iv(2) j(5,6)] by blast
  have ncp: "\<bar>- cp\<bar> \<le> 2 powr of_int (- j)" and nsp: "\<bar>- sp\<bar> \<le> 2 powr of_int (- j)"
    using cp(2) sp(2) by simp_all
  obtain e10 where e10: "Fin (- cp) * Fin z = Fin e10"
    using fin_times_unit2 [OF ncp z j(5,6)] by blast
  obtain e11 where e11: "Fin (- sp) * Fin z = Fin e11"
    using fin_times_unit2 [OF nsp z j(5,6)] by blast
  obtain e24 where e24: "Fin (- sp) * Fin iv = Fin e24"
    using fin_times_le [OF nsp iv(2) j(7,8)] by blast
  obtain e25 where e25: "Fin cp * Fin iv = Fin e25"
    using fin_times_le [OF cp(2) iv(2) j(7,8)] by blast
  obtain e34 where e34: "Fin cp * Fin z = Fin e34"
    using fin_times_unit2 [OF cp(2) z j(5,6)] by blast
  obtain e35 where e35: "Fin sp * Fin z = Fin e35"
    using fin_times_unit2 [OF sp(2) z j(5,6)] by blast
  have sinTheta: "dsqrt (Fin x * Fin x + Fin y * Fin y) = Fin st"
    unfolding a(1) b(1) s(1) by (rule st(1))
  show ?thesis
  proof (cases "\<bar>Fin z\<bar> < Fin t")
    case True
    then show ?thesis
      using sinTheta iv(1) cp(1) sp(1) e10 e11 e24 e25 e34 e35 by (rule rows_finite_standard)
  next
    case False
    then have "2 powr of_int j \<le> \<bar>z\<bar>" using t unfolding L by simp
    then have "2 powr of_int (2 * j) \<le> c" using j(1) c(1) by (rule fin_square_ge)
    then have bc: "2 powr of_int (2 * j) \<le> b \<or> 2 powr of_int (2 * j) \<le> c" by simp
    obtain q where q: "Fin b + Fin c = Fin q" "2 powr of_int (2 * j) \<le> q" "q \<le> 2"
      using fin_plus_ge [OF b(2,3) c(2,3) bc j(2)] by blast
    obtain cc where cc: "dsqrt (Fin q) = Fin cc" "2 powr of_int j \<le> cc" "cc \<le> 2"
      using dsqrt_ge [OF q(2,3) j(1)] by blast
    obtain ic where ic: "Fin 1 / Fin cc = Fin ic" "\<bar>ic\<bar> \<le> 2 powr of_int (- j)"
      using fin_inverse_le [OF cc(2) j(3,4)] by blast
    have nz: "\<bar>- z\<bar> \<le> 1" and nx: "\<bar>- x\<bar> \<le> 1" using z x by simp_all
    obtain g01 where g01: "Fin (- z) * Fin ic = Fin g01"
      using fin_times_unit [OF nz ic(2) j(5,6)] by blast
    obtain g02 where g02: "Fin y * Fin ic = Fin g02"
      using fin_times_unit [OF y ic(2) j(5,6)] by blast
    obtain xy where xy: "Fin (- x) * Fin y = Fin xy" "\<bar>xy\<bar> \<le> 1"
      using fin_times_unit_unit [OF nx y] by blast
    obtain xz where xz: "Fin (- x) * Fin z = Fin xz" "\<bar>xz\<bar> \<le> 1"
      using fin_times_unit_unit [OF nx z] by blast
    obtain g11 where g11: "Fin xy * Fin ic = Fin g11"
      using fin_times_unit [OF xy(2) ic(2) j(5,6)] by blast
    obtain g12 where g12: "Fin xz * Fin ic = Fin g12"
      using fin_times_unit [OF xz(2) ic(2) j(5,6)] by blast
    have c': "dsqrt (Fin y * Fin y + Fin z * Fin z) = Fin cc"
      unfolding b(1) c(1) q(1) by (rule cc(1))
    have g01': "- Fin z * Fin ic = Fin g01" and g11': "- Fin x * Fin y * Fin ic = Fin g11"
      and g12': "- Fin x * Fin z * Fin ic = Fin g12"
      unfolding uminus_double.simps xy(1) xz(1) by (rule g01 g11 g12)+
    from False sinTheta iv(1) cp(1) sp(1) c' ic(1) g01' g02 g11' g12' e24 e25 e34 e35
    show ?thesis by (rule rows_finite_grazing)
  qed
qed

text \<open>The direction \<open>(1, 0, 0)\<close> with the tolerance 0.999995.\<close>

theorem freeToCurvilinearJacobian_finite_away_from_poles_witness:
  "\<bar>1::real\<bar> \<le> 1 \<and> \<bar>0::real\<bar> \<le> 1
   \<and> \<bar>(1::real) * 1 + 0 * 0 + 0 * 0 - 1\<bar> \<le> 1 / 2 ^ 40
   \<and> 1 / 2 ^ 500 \<le> \<bar>1::real\<bar>
   \<and> (1::real) / 2 ^ 500 \<le> 999995 / 1000000
   \<and> \<bar>0::real\<bar> \<noteq> 999995 / 1000000
   \<and> list_all (list_all isfinite)
        (freeToCurvilinearJacobian (Fin (999995 / 1000000)) [Fin 1, Fin 0, Fin 0])"
  using freeToCurvilinearJacobian_finite_away_from_poles [of 1 0 0 "999995 / 1000000"]
  by simp

text \<open>Below \<open>2\<^sup>-\<^sup>1\<^sup>0\<^sup>7\<^sup>5\<close> a positive number is rounded to zero.\<close>

lemma round_double_underflow:
  assumes "0 < x" and "x < 2 powr (- 1075)"
  shows "round_double x = Fin 0"
proof -
  have "log 2 x < - 1075" using assms by (simp add: log_less_iff)
  then have "\<lfloor>log 2 \<bar>x\<bar>\<rfloor> \<le> - 1022" using assms(1) by (simp add: floor_le_iff)
  then have b: "binade x = - 1022" by (simp add: binade_def)
  have u: "ulp x = 2 powr (- 1074)" by (simp add: ulp_def b)
  have "x / ulp x < 2 powr (- 1075) / 2 powr (- 1074)"
    unfolding u using assms(2) by (simp add: divide_strict_right_mono)
  also have "\<dots> = 1 / 2" by (simp add: powr_diff [symmetric])
  finally have h: "x / ulp x < 1 / 2" .
  moreover have p: "0 < x / ulp x" using assms(1) ulp_pos [of x] by simp
  ultimately have "0 \<le> x / ulp x" and "x / ulp x < 1" by linarith+
  then have "\<lfloor>x / ulp x\<rfloor> = 0" by (simp add: floor_eq_iff)
  then have "rne (x / ulp x) = 0" using h by (simp add: rne_def Let_def)
  then show ?thesis using assms(1) by (simp add: round_double_def Let_def)
qed

lemma tiny_square: "round_double (1 / 2 ^ 600 * (1 / 2 ^ 600)) = Fin 0"
  by (rule round_double_underflow) (simp_all add: powr_neg_numeral)

lemmas tiny_square_simp = tiny_square [simplified]

text \<open>
  Claim C2 fails at the exact poles: with \<open>x = y = 0\<close> the sine of the polar angle is
  \<open>0\<close>, its inverse is \<open>+\<infinity>\<close>, \<open>cosPhi\<close> and \<open>sinPhi\<close> are \<open>0 * \<infinity>\<close>, and the entries
  (2,4), (2,5), (3,4) and (3,5) of the two angular rows, which are written after the
  branch, are NaN. It also fails next to the poles, where \<open>x\<^sup>2 + y\<^sup>2\<close> is rounded to zero:
  the direction \<open>(2\<^sup>-\<^sup>6\<^sup>0\<^sup>0, 0, 1)\<close> has the squared norm \<open>1\<close> in binary64, and the matrix
  returned for it has entries that are not finite.
\<close>

theorem freeToCurvilinearJacobian_nan_at_poles:
  "freeToCurvilinearJacobian (Fin (999995 / 1000000)) [Fin 0, Fin 0, Fin 1] ! 2 ! 4 = NaN
   \<and> freeToCurvilinearJacobian (Fin (999995 / 1000000)) [Fin 0, Fin 0, Fin 1] ! 2 ! 5 = NaN
   \<and> freeToCurvilinearJacobian (Fin (999995 / 1000000)) [Fin 0, Fin 0, Fin 1] ! 3 ! 4 = NaN
   \<and> freeToCurvilinearJacobian (Fin (999995 / 1000000)) [Fin 0, Fin 0, Fin 1] ! 3 ! 5 = NaN
   \<and> freeToCurvilinearJacobian (Fin (999995 / 1000000)) [Fin 0, Fin 0, Fin (- 1)] ! 2 ! 4 = NaN
   \<and> freeToCurvilinearJacobian (Fin (999995 / 1000000)) [Fin 0, Fin 0, Fin (- 1)] ! 2 ! 5 = NaN
   \<and> freeToCurvilinearJacobian (Fin (999995 / 1000000)) [Fin 0, Fin 0, Fin (- 1)] ! 3 ! 4 = NaN
   \<and> freeToCurvilinearJacobian (Fin (999995 / 1000000)) [Fin 0, Fin 0, Fin (- 1)] ! 3 ! 5 = NaN
   \<and> \<not> list_all (list_all isfinite)
        (freeToCurvilinearJacobian (Fin (999995 / 1000000)) [Fin 0, Fin 0, Fin 1])
   \<and> \<not> list_all (list_all isfinite)
        (freeToCurvilinearJacobian (Fin (999995 / 1000000)) [Fin 0, Fin 0, Fin (- 1)])
   \<and> Fin (1 / 2 ^ 600) * Fin (1 / 2 ^ 600) + Fin 0 * Fin 0 + Fin 1 * Fin 1 = Fin 1
   \<and> \<not> list_all (list_all isfinite)
        (freeToCurvilinearJacobian (Fin (999995 / 1000000))
           [Fin (1 / 2 ^ 600), Fin 0, Fin 1])"
  by (simp add: jac_eval rd_simps tiny_square_simp)

section \<open>The sigma points of the corrector\<close>

lemma sampledBoundParams_unrolled:
  "sampledBoundParams kappa cs bp =
    [(bp, (kappa - Fin 6) / kappa),
     (vadd bp (vscale (col cs 0) (dsqrt kappa)), Fin (1 / 2) / kappa),
     (vsub bp (vscale (col cs 0) (dsqrt kappa)), Fin (1 / 2) / kappa),
     (vadd bp (vscale (col cs 1) (dsqrt kappa)), Fin (1 / 2) / kappa),
     (vsub bp (vscale (col cs 1) (dsqrt kappa)), Fin (1 / 2) / kappa),
     (vadd bp (vscale (col cs 2) (dsqrt kappa)), Fin (1 / 2) / kappa),
     (vsub bp (vscale (col cs 2) (dsqrt kappa)), Fin (1 / 2) / kappa),
     (vadd bp (vscale (col cs 3) (dsqrt kappa)), Fin (1 / 2) / kappa),
     (vsub bp (vscale (col cs 3) (dsqrt kappa)), Fin (1 / 2) / kappa),
     (vadd bp (vscale (col cs 4) (dsqrt kappa)), Fin (1 / 2) / kappa),
     (vsub bp (vscale (col cs 4) (dsqrt kappa)), Fin (1 / 2) / kappa),
     (vadd bp (vscale (col cs 5) (dsqrt kappa)), Fin (1 / 2) / kappa),
     (vsub bp (vscale (col cs 5) (dsqrt kappa)), Fin (1 / 2) / kappa)]"
  by (simp add: sampledBoundParams_def upt6 Let_def eBoundSize_def)

lemma length_sampledBoundParams: "length (sampledBoundParams kappa cs bp) = 13"
  by (simp add: sampledBoundParams_unrolled)

text \<open>The first loop, with any starting accumulator.\<close>

lemma transformSamples_acc:
  "foldl (\<lambda>(t, m) (p, w). let fp = f p in (t @ [fp], vadd m (scale w fp))) (t0, m0) xs =
     (t0 @ map (\<lambda>s. f (fst s)) xs,
      foldl vadd m0 (map2 scale (map snd xs) (map (\<lambda>s. f (fst s)) xs)))"
  by (induction xs arbitrary: t0 m0) (auto simp: Let_def)

lemma transformSamples_eq:
  "transformSamples S xs =
     (map (\<lambda>s. transformBoundToFreeParameters S (fst s)) xs,
      foldl vadd (VectorZero 8)
        (map2 scale (map snd xs) (map (\<lambda>s. transformBoundToFreeParameters S (fst s)) xs)))"
  unfolding transformSamples_def by (simp add: transformSamples_acc)

text \<open>A loop over the indices of two lists of one length visits every pair once.\<close>

lemma foldl_index:
  "length xs = length ys \<Longrightarrow>
   foldl (\<lambda>a i. g a (xs ! i) (ys ! i)) a [0..<length xs] =
   foldl (\<lambda>a (x, y). g a x y) a (zip xs ys)"
proof (induction xs ys arbitrary: a rule: list_induct2)
  case Nil
  then show ?case by simp
next
  case (Cons x xs y ys)
  have "[0..<length (x # xs)] = 0 # map Suc [0..<length xs]"
    by (simp add: upt_conv_Cons map_Suc_upt del: upt_Suc)
  then show ?case
    using Cons.IH by (simp add: foldl_map del: upt_Suc)
qed

lemma weightedCovariance_eq:
  assumes "length samples = n" and "length tfp = n"
  shows "weightedCovariance n samples tfp m =
     foldl madd (Zero 8 8)
       (map2 (\<lambda>w fp. outer (scale w (vsub fp m)) (vsub fp m)) (map snd samples) tfp)"
proof -
  have "weightedCovariance n samples tfp m =
      foldl (\<lambda>a (s, t). madd a (outer (scale (snd s) (vsub t m)) (vsub t m))) (Zero 8 8)
        (zip samples tfp)"
    unfolding weightedCovariance_def Let_def
    using foldl_index [of samples tfp
        "\<lambda>a s t. madd a (outer (scale (snd s) (vsub t m)) (vsub t m))" "Zero 8 8"] assms
    by simp
  also have "\<dots> = foldl madd (Zero 8 8)
       (map2 (\<lambda>w fp. outer (scale w (vsub fp m)) (vsub fp m)) (map snd samples) tfp)"
    by (simp add: zip_map1 foldl_map case_prod_unfold)
  finally show ?thesis .
qed

lemma CorrectedBoundToFreeTransformer_eq:
  "CorrectedBoundToFreeTransformer svd kappa bp cov S =
    (let samples = sampledBoundParams kappa (covSqrt svd cov) bp;
         transformed = map (\<lambda>s. transformBoundToFreeParameters S (fst s)) samples;
         fpMean = foldl vadd (VectorZero 8) (map2 scale (map snd samples) transformed)
     in Some (fpMean,
          foldl madd (Zero 8 8)
            (map2 (\<lambda>w fp. outer (scale w (vsub fp fpMean)) (vsub fp fpMean))
               (map snd samples) transformed)))"
proof -
  define samples where "samples = sampledBoundParams kappa (covSqrt svd cov) bp"
  have len: "length samples = 13"
    by (simp add: samples_def length_sampledBoundParams)
  then have ne: "samples \<noteq> []" by auto
  show ?thesis
    unfolding CorrectedBoundToFreeTransformer_def samples_def [symmetric] Let_def
    using len ne
    by (simp add: transformSamples_eq eBoundSize_def weightedCovariance_eq)
qed

lemma CorrectedBoundToFreeTransformer_Some:
  "\<exists>fpMean fv. CorrectedBoundToFreeTransformer svd kappa bp cov S = Some (fpMean, fv)"
  by (simp add: CorrectedBoundToFreeTransformer_eq Let_def)

text \<open>The two loops that fill \<open>D\<close> and \<open>UP\<close>, in closed form.\<close>

lemma covSqrt_eq:
  "covSqrt svd cov =
    (let S = singularValues (svd cov);
         U = matrixU (svd cov);
         D = map (\<lambda>i. map (\<lambda>j. if i = j then dsqrt (S ! i) else 0) [0..<6]) [0..<6];
         UP = map (\<lambda>i. map (\<lambda>j. U ! i ! j) [0..<6]) [0..<6]
     in mmul (mmul UP D) (transpose_mat UP))"
  by (simp add: covSqrt_def Let_def upt6 eBoundSize_def Zero_def assign_def numeral_eq_Suc)

text \<open>
  Claim C3, as the code has it: the corrector has no outcome "correction unavailable".
  The transform of a sample is a plain \<open>FreeVector\<close>, so no sample can fail or drop out
  of the batch; for every input the list of transformed samples has \<open>2n + 1 = 13\<close>
  entries, the branch that returns nothing (an empty list) is never taken, and the
  returned mean and covariance are the weighted sums over all 13 transformed samples,
  never over a part of them.
\<close>

theorem corrector_aggregates_all_samples:
  "\<exists>fpMean fv.
     CorrectedBoundToFreeTransformer svd kappa bp cov S = Some (fpMean, fv)
   \<and> (let samples = sampledBoundParams kappa (covSqrt svd cov) bp;
          transformed = map (\<lambda>s. transformBoundToFreeParameters S (fst s)) samples
      in length samples = 2 * eBoundSize + 1
       \<and> length transformed = 2 * eBoundSize + 1
       \<and> fst (transformSamples S samples) = transformed
       \<and> fpMean = foldl vadd (VectorZero 8) (map2 scale (map snd samples) transformed)
       \<and> fv = foldl madd (Zero 8 8)
               (map2 (\<lambda>w fp. outer (scale w (vsub fp fpMean)) (vsub fp fpMean))
                  (map snd samples) transformed))"
  by (simp add: CorrectedBoundToFreeTransformer_eq transformSamples_eq Let_def
        length_sampledBoundParams eBoundSize_def)


text \<open>The corrector on a covariance with an infinite variance.\<close>

lemma covSqrt_of_inf:
  "covSqrt svd_of_inf cov_inf =
     [[PInf, NaN, NaN, NaN, NaN, NaN], [NaN, NaN, NaN, NaN, NaN, NaN],
      [NaN, NaN, NaN, NaN, NaN, NaN], [NaN, NaN, NaN, NaN, NaN, NaN],
      [NaN, NaN, NaN, NaN, NaN, NaN], [NaN, NaN, NaN, NaN, NaN, NaN]]"
  by (simp add: covSqrt_eq svd_of_inf_def la_defs upt6 Let_def zero_double_def
        one_double_def numeral_eq_Suc rd_simps)

text \<open>
  Claim C3 fails on a batch with an invalid sample: with an infinite variance the
  first shifted sample transforms to a vector with NaN entries, and the corrector still
  returns an estimate, whose mean has a NaN entry.
\<close>

theorem corrector_aggregates_invalid_sample:
  "fst (transformSamples plane_surface
          (sampledBoundParams kappa_default (covSqrt svd_of_inf cov_inf) bound0)) ! 1
     = [PInf, NaN, Fin 0, NaN, NaN, NaN, NaN, NaN]
   \<and> CorrectedBoundToFreeTransformer svd_of_inf kappa_default bound0 cov_inf plane_surface
       \<noteq> None
   \<and> fst (the (CorrectedBoundToFreeTransformer svd_of_inf kappa_default bound0 cov_inf
                 plane_surface)) ! 1 = NaN"
  by (simp add: CorrectedBoundToFreeTransformer_eq transformSamples_eq covSqrt_of_inf
        sampledBoundParams_unrolled kappa_default_def bound0_def plane_surface_def
        plane_boundToFree_def la_defs rd_simps Let_def zero_double_def minus_double_def
        numeral_eq_Suc)



section \<open>The path derivative of a surface\<close>

text \<open>
  Claim C8: for every geometry context and position, and every direction \<open>d\<close> with
  \<open>n \<cdot> d \<noteq> 0\<close>, where \<open>n\<close> is the third column of the reference frame and the product is
  the one the code computes, \<open>freeToPathDerivative\<close> returns the row of eight entries whose
  first three are \<open>norm \<cdot> n\<close> with \<open>norm = -1 / (n \<cdot> d)\<close> and whose other five are zero,
  every operation rounded to binary64.
\<close>

theorem freeToPathDerivative_row:
  assumes "transform s gctx =
             [[a00, a01, n0, t0], [a10, a11, n1, t1], [a20, a21, n2, t2], r3]"
    and "dot [n0, n1, n2] [d0, d1, d2] \<noteq> 0"
  shows "freeToPathDerivative s gctx position [d0, d1, d2] =
           (let norm = Fin (- 1) / dot [n0, n1, n2] [d0, d1, d2]
            in [norm * n0, norm * n1, norm * n2, Fin 0, Fin 0, Fin 0, Fin 0, Fin 0])"
  using assms(1)
  by (simp add: freeToPathDerivative_def referenceFrame_def block_def col_def scale_def
        assign_segment_def VectorZero_def zero_double_def Let_def numeral_eq_Suc)

text \<open>The plane \<open>z = 0\<close> with the identity frame and the direction along its normal.\<close>

theorem freeToPathDerivative_row_witness:
  "transform plane_placement () =
     [[Fin 1, Fin 0, Fin 0, Fin 0], [Fin 0, Fin 1, Fin 0, Fin 0],
      [Fin 0, Fin 0, Fin 1, Fin 0], [Fin 0, Fin 0, Fin 0, Fin 1]]
   \<and> dot [Fin 0, Fin 0, Fin 1] [Fin 0, Fin 0, Fin 1] = Fin 1
   \<and> dot [Fin 0, Fin 0, Fin 1] [Fin 0, Fin 0, Fin 1] \<noteq> 0
   \<and> freeToPathDerivative plane_placement () [Fin 0, Fin 0, Fin 0] [Fin 0, Fin 0, Fin 1] =
       [Fin 0, Fin 0, Fin (- 1), Fin 0, Fin 0, Fin 0, Fin 0, Fin 0]"
proof -
  have t: "transform plane_placement () =
     [[Fin 1, Fin 0, Fin 0, Fin 0], [Fin 0, Fin 1, Fin 0, Fin 0],
      [Fin 0, Fin 0, Fin 1, Fin 0], [Fin 0, Fin 0, Fin 0, Fin 1]]"
    by (simp add: transform_def plane_placement_def)
  have d: "dot [Fin 0, Fin 0, Fin 1] [Fin 0, Fin 0, Fin 1] = Fin 1"
    by (simp add: dot_def dsum_def zero_double_def rd_simps)
  have n: "dot [Fin 0, Fin 0, Fin 1] [Fin 0, Fin 0, Fin 1] \<noteq> 0"
    by (simp add: d zero_double_def)
  have "freeToPathDerivative plane_placement () [Fin 0, Fin 0, Fin 0] [Fin 0, Fin 0, Fin 1] =
       [Fin 0, Fin 0, Fin (- 1), Fin 0, Fin 0, Fin 0, Fin 0, Fin 0]"
    unfolding freeToPathDerivative_row [OF t n, of "[Fin 0, Fin 0, Fin 0]"] d
    by (simp add: rd_simps)
  with t d n show ?thesis by blast
qed

section \<open>Re-initialization and transport to a surface\<close>

lemma reinitializeJacobians_ok:
  "transformFreeToBoundParameters S fp = Inr bp \<Longrightarrow>
   reinitializeJacobians st fp S =
     (Inr (), st\<lparr>freeTransportJacobian := Identity 8, freeDerivatives := VectorZero 8,
                 boundToFreeJacobian := surface_boundToFreeJacobian S bp\<rparr>)"
  by (simp add: reinitializeJacobians_def Let_def)

lemma reinitializeJacobians_failure:
  "transformFreeToBoundParameters S fp = Inl e \<Longrightarrow>
   reinitializeJacobians st fp S =
     (Inl e, st\<lparr>freeTransportJacobian := Identity 8, freeDerivatives := VectorZero 8\<rparr>)"
  by (simp add: reinitializeJacobians_def Let_def)

text \<open>The outcome of \<open>globalToLocal\<close> changes nothing but the log.\<close>

lemma reinitializeJacobians_ignores_globalToLocal:
  "reinitializeJacobians st fp (S\<lparr>surface_globalToLocal := g\<rparr>) = reinitializeJacobians st fp S"
  by (simp add: reinitializeJacobians_def Let_def split: sum.splits)

lemma transport_success:
  assumes "transformFreeToBoundParameters S fp = Inr bp"
    and "CorrectedBoundToFreeTransformer svd kappa_default bp (boundCovariance st) S
           = Some (cMean, cCov)"
  shows "transportCovarianceToBound svd st fp S =
    (let p = surface_freeToPathDerivative S fp;
         F = surface_freeToBoundJacobian S fp;
         M = mmul (madd (Identity 8) (outer (freeDerivatives st) p)) (freeTransportJacobian st);
         fc = mmul (mmul M cCov) (transpose_mat M)
     in (Returns (),
         st\<lparr>fullTransportJacobian := mmul F (mmul M (boundToFreeJacobian st)),
            freeCovariance := fc,
            boundCovariance := mmul (mmul F fc) (transpose_mat F),
            freeTransportJacobian := Identity 8,
            freeDerivatives := VectorZero 8,
            boundToFreeJacobian := surface_boundToFreeJacobian S bp\<rparr>))"
  using assms
  by (simp add: transportCovarianceToBound_def boundToBoundJacobian_def Let_def
        reinitializeJacobians_ok)

lemma transport_failure:
  "transformFreeToBoundParameters S fp = Inl e \<Longrightarrow>
   transportCovarianceToBound svd st fp S =
     (Throws (Result_value_on_error e),
      st\<lparr>fullTransportJacobian :=
            fst (boundToBoundJacobian fp (boundToFreeJacobian st) (freeTransportJacobian st)
                   (freeDerivatives st) S)\<rparr>)"
  by (simp add: transportCovarianceToBound_def Let_def split_def)

lemma free_off_conversion: "transformFreeToBoundParameters plane_surface free_off = Inl 1"
  by (simp add: plane_surface_def plane_freeToBound_def free_off_def)

lemma plane_surface_conversion: "transformFreeToBoundParameters plane_surface free0 = Inr bound0"
  by (simp add: plane_surface_def plane_freeToBound_def free0_def bound0_def)

lemma plane_surface_freeToPath:
  "surface_freeToPathDerivative plane_surface free0
     = [Fin 0, Fin 0, Fin (- 1), Fin 0, Fin 0, Fin 0, Fin 0, Fin 0]"
  by (simp add: plane_surface_def free0_def plane_placement_def freeToPathDerivative_def
        referenceFrame_def transform_def block_def segment_def col_def dot_def dsum_def
        scale_def assign_segment_def VectorZero_def zero_double_def Let_def numeral_eq_Suc
        eFreePos0_def eFreeDir0_def rd_simps)

lemma state1_transport_not_Identity: "freeTransportJacobian state1 \<noteq> Identity 8"
  by (simp add: state1_def la_defs upt8 zero_double_def one_double_def numeral_eq_Suc)

lemma state1_derivatives_not_Zero: "freeDerivatives state1 \<noteq> VectorZero 8"
  by (simp add: state1_def la_defs zero_double_def numeral_eq_Suc)

text \<open>The corrector on the zero covariance: every sample is the mean.\<close>

lemma covSqrt_of_zero: "covSqrt svd_of_zero (Zero 6 6) = Zero 6 6"
  by (simp add: covSqrt_eq svd_of_zero_def la_defs upt6 Let_def zero_double_def
        one_double_def numeral_eq_Suc rd_simps)

lemma samples_of_zero:
  "sampledBoundParams kappa_default (Zero 6 6) bound0 =
     [(bound0, Fin (- (1 / 2))), (bound0, Fin (1 / 8)), (bound0, Fin (1 / 8)),
      (bound0, Fin (1 / 8)), (bound0, Fin (1 / 8)), (bound0, Fin (1 / 8)),
      (bound0, Fin (1 / 8)), (bound0, Fin (1 / 8)), (bound0, Fin (1 / 8)),
      (bound0, Fin (1 / 8)), (bound0, Fin (1 / 8)), (bound0, Fin (1 / 8)),
      (bound0, Fin (1 / 8))]"
  by (simp add: sampledBoundParams_unrolled kappa_default_def bound0_def la_defs
        zero_double_def minus_double_def numeral_eq_Suc rd_simps)

lemma plane_surface_boundToFree: "transformBoundToFreeParameters plane_surface bound0 = free0"
  by (simp add: plane_surface_def plane_boundToFree_def bound0_def free0_def rd_simps)

lemma corrector_of_zero:
  "CorrectedBoundToFreeTransformer svd_of_zero kappa_default bound0 (Zero 6 6) plane_surface
   = Some (free0, Zero 8 8)"
  unfolding CorrectedBoundToFreeTransformer_def covSqrt_of_zero samples_of_zero
  by (simp add: transformSamples_def weightedCovariance_def plane_surface_boundToFree
        free0_def Let_def eBoundSize_def upt13 la_defs zero_double_def minus_double_def
        numeral_eq_Suc rd_simps)

lemma transported_freeCovariance_state1:
  "freeCovariance (snd (transportCovarianceToBound svd_of_zero state1 free0 plane_surface))
     = Zero 8 8"
proof -
  have b: "boundCovariance state1 = Zero 6 6" by (simp add: state1_def)
  have "freeCovariance (snd (transportCovarianceToBound svd_of_zero state1 free0 plane_surface)) =
     (let M = mmul (madd (Identity 8)
                   (outer (freeDerivatives state1)
                      (surface_freeToPathDerivative plane_surface free0)))
               (freeTransportJacobian state1)
      in mmul (mmul M (Zero 8 8)) (transpose_mat M))"
    using transport_success [OF plane_surface_conversion, of svd_of_zero state1 _ "Zero 8 8"]
      corrector_of_zero
    by (simp add: b Let_def)
  also have "\<dots> = Zero 8 8"
    by (simp add: plane_surface_freeToPath)
       (simp add: state1_def la_defs upt8 zero_double_def one_double_def numeral_eq_Suc
          Let_def rd_simps)
  finally show ?thesis .
qed

lemma conjugated_freeCovariance_state1:
  "(let M = mmul (madd (Identity 8)
                   (outer (freeDerivatives state1)
                      (surface_freeToPathDerivative plane_surface free0)))
               (freeTransportJacobian state1)
    in mmul (mmul M (freeCovariance state1)) (transpose_mat M)) \<noteq> Zero 8 8"
  by (simp add: plane_surface_freeToPath)
     (simp add: state1_def la_defs upt8 zero_double_def one_double_def numeral_eq_Suc
        Let_def rd_simps)

text \<open>
  Claim C1, as the code has it: for every call to \<open>transportCovarianceToBound\<close> in which
  the conversion of the free parameters to bound parameters at the target surface
  succeeds, the call returns and
  \<^item> the full Jacobian is \<open>F \<cdot> ((I + freeDerivatives \<otimes> pathDerivative) \<cdot>
    freeTransportJacobian \<cdot> boundToFreeJacobian)\<close>;
  \<^item> the corrector (bound to free, \<open>\<kappa> = 4\<close>) is run first, on the converted bound
    parameters and the incoming bound covariance, and always yields a covariance, which
    takes the place of the incoming free covariance;
  \<^item> that covariance is conjugated by \<open>M = (I + freeDerivatives \<otimes> pathDerivative) \<cdot>
    freeTransportJacobian\<close>, giving the new free covariance;
  \<^item> the bound covariance is \<open>F\<close> times the new free covariance times \<open>F\<^sup>T\<close>;
  \<^item> the step state is reset: transport Jacobian to the identity, path derivatives to
    zero, bound-to-free Jacobian to the one of the surface at the converted parameters.
\<close>

theorem transportCovarianceToBound_on_success:
  assumes "transformFreeToBoundParameters S fp = Inr bp"
  shows "\<exists>st' cMean cCov.
     transportCovarianceToBound svd st fp S = (Returns (), st')
   \<and> CorrectedBoundToFreeTransformer svd kappa_default bp (boundCovariance st) S
        = Some (cMean, cCov)
   \<and> (let p = surface_freeToPathDerivative S fp;
           F = surface_freeToBoundJacobian S fp;
           M = mmul (madd (Identity 8) (outer (freeDerivatives st) p))
                 (freeTransportJacobian st)
       in fullTransportJacobian st' = mmul F (mmul M (boundToFreeJacobian st))
        \<and> freeCovariance st' = mmul (mmul M cCov) (transpose_mat M)
        \<and> boundCovariance st' = mmul (mmul F (freeCovariance st')) (transpose_mat F)
        \<and> freeTransportJacobian st' = Identity 8
        \<and> freeDerivatives st' = VectorZero 8
        \<and> boundToFreeJacobian st' = surface_boundToFreeJacobian S bp)"
proof -
  obtain cMean cCov where
    c: "CorrectedBoundToFreeTransformer svd kappa_default bp (boundCovariance st) S
          = Some (cMean, cCov)"
    using CorrectedBoundToFreeTransformer_Some [of svd kappa_default bp "boundCovariance st" S]
    by blast
  show ?thesis
    using c transport_success [OF assms c]
    by (simp add: Let_def)
qed

text \<open>The plane, read in the middle of a step.\<close>

theorem transportCovarianceToBound_on_success_witness:
  "transformFreeToBoundParameters plane_surface free0
     = Inr bound0
   \<and> fst (transportCovarianceToBound svd_of_zero state1 free0 plane_surface) = Returns ()
   \<and> freeTransportJacobian (snd (transportCovarianceToBound svd_of_zero state1 free0 plane_surface))
        = Identity 8
   \<and> freeDerivatives (snd (transportCovarianceToBound svd_of_zero state1 free0 plane_surface))
        = VectorZero 8"
proof -
  obtain st' where
    r: "transportCovarianceToBound svd_of_zero state1 free0 plane_surface = (Returns (), st')"
    and t: "freeTransportJacobian st' = Identity 8"
    and d: "freeDerivatives st' = VectorZero 8"
    using transportCovarianceToBound_on_success
      [OF plane_surface_conversion, of svd_of_zero state1]
    by (auto simp: Let_def)
  then show ?thesis
    using plane_surface_conversion by simp
qed

text \<open>
  Claim C1 does not hold for every call. When the conversion fails, its value is read
  all the same and the call is left by the exception: no covariance is transported and
  the transport Jacobian and the path derivatives are not reset. When the conversion
  succeeds, the new free covariance is the conjugated covariance of the corrector, not
  the conjugated incoming free covariance: here the incoming bound covariance is zero,
  the incoming free covariance is the identity, and the new free covariance is zero.
\<close>

theorem transportCovarianceToBound_not_every_call:
  "fst (transportCovarianceToBound svd_of_zero state1 free_off plane_surface)
     = Throws (Result_value_on_error 1)
   \<and> boundCovariance (snd (transportCovarianceToBound svd_of_zero state1 free_off plane_surface))
     = boundCovariance state1
   \<and> freeTransportJacobian (snd (transportCovarianceToBound svd_of_zero state1 free_off plane_surface))
     \<noteq> Identity 8
   \<and> freeCovariance (snd (transportCovarianceToBound svd_of_zero state1 free0 plane_surface))
     \<noteq> (let M = mmul (madd (Identity 8)
                     (outer (freeDerivatives state1)
                        (surface_freeToPathDerivative plane_surface free0)))
                 (freeTransportJacobian state1)
        in mmul (mmul M (freeCovariance state1)) (transpose_mat M))"
  using conjugated_freeCovariance_state1
  by (simp add: transport_failure [OF free_off_conversion] state1_transport_not_Identity
        transported_freeCovariance_state1 del: not_None_eq)


text \<open>
  Claim C10, as the code has it: when the conversion at the new surface fails,
  \<open>reinitializeJacobians\<close> returns the failure with the transport Jacobian set to the
  identity, the path derivatives set to zero and the bound-to-free Jacobian left as it
  was. \<open>transportCovarianceToBound\<close> does not get that far: it reads the value of the
  same conversion before, for the corrector, so the call is left by the exception there,
  with the transport Jacobian, the path derivatives and the bound-to-free Jacobian all
  as they were on entry.
\<close>

theorem conversion_failure_raises_before_reinitialization:
  assumes "transformFreeToBoundParameters S fp = Inl e"
  shows "reinitializeJacobians st fp S =
           (Inl e, st\<lparr>freeTransportJacobian := Identity 8, freeDerivatives := VectorZero 8\<rparr>)
       \<and> boundToFreeJacobian (snd (reinitializeJacobians st fp S)) = boundToFreeJacobian st
       \<and> fst (transportCovarianceToBound svd st fp S) = Throws (Result_value_on_error e)
       \<and> freeTransportJacobian (snd (transportCovarianceToBound svd st fp S))
            = freeTransportJacobian st
       \<and> freeDerivatives (snd (transportCovarianceToBound svd st fp S)) = freeDerivatives st
       \<and> boundToFreeJacobian (snd (transportCovarianceToBound svd st fp S))
            = boundToFreeJacobian st"
  using assms by (simp add: reinitializeJacobians_failure transport_failure)

text \<open>The free state that the plane cannot place.\<close>

theorem conversion_failure_raises_before_reinitialization_witness:
  "transformFreeToBoundParameters plane_surface free_off = Inl 1
   \<and> reinitializeJacobians state1 free_off plane_surface =
       (Inl 1, state1\<lparr>freeTransportJacobian := Identity 8, freeDerivatives := VectorZero 8\<rparr>)
   \<and> fst (transportCovarianceToBound svd_of_zero state1 free_off plane_surface)
       = Throws (Result_value_on_error 1)
   \<and> freeTransportJacobian (snd (transportCovarianceToBound svd_of_zero state1 free_off plane_surface))
       = freeTransportJacobian state1"
  using conversion_failure_raises_before_reinitialization
    [OF free_off_conversion, of state1 svd_of_zero]
    free_off_conversion
  by simp

text \<open>
  Claim C10 fails for a call of \<open>transportCovarianceToBound\<close> whose conversion fails:
  the failure reaches the caller as an exception, and the step state is not partially
  reset, since neither the transport Jacobian nor the path derivatives are touched.
\<close>

theorem transportCovarianceToBound_failure_is_raised:
  "fst (transportCovarianceToBound svd_of_zero state1 free_off plane_surface)
     = Throws (Result_value_on_error 1)
   \<and> freeTransportJacobian (snd (transportCovarianceToBound svd_of_zero state1 free_off plane_surface))
     \<noteq> Identity 8
   \<and> freeDerivatives (snd (transportCovarianceToBound svd_of_zero state1 free_off plane_surface))
     \<noteq> VectorZero 8"
  by (simp add: transport_failure [OF free_off_conversion] state1_transport_not_Identity
        state1_derivatives_not_Zero)



section \<open>Presence of the covariance in the returned states\<close>

text \<open>
  Claim C4, as the code has it: when covariance transport is not requested, the
  covariance returned by \<open>curvilinearState\<close> is the incoming bound covariance matrix
  when that matrix is not the zero matrix, and is absent when it is the zero matrix;
  the step state is unchanged. Whenever \<open>boundState\<close> returns a state in that case, its
  covariance is the incoming matrix, which is then not the zero matrix. A returned
  covariance is never the zero matrix.
\<close>

theorem covariance_present_iff_nonzero:
  "curvilinearCovariance (fst (fst (curvilinearState tol st fp False path)))
     = (if boundCovariance st = Zero 6 6 then None else Some (boundCovariance st))
   \<and> snd (curvilinearState tol st fp False path) = st
   \<and> (boundState svd cf st fp False path S nl = (Returns (Inr bs), st') \<longrightarrow>
        covariance (fst bs) = Some (boundCovariance st) \<and> boundCovariance st \<noteq> Zero 6 6
        \<and> st' = st)"
  by (auto simp: curvilinearState_def boundState_def Let_def
      split: sum.splits option.splits if_splits prod.splits)

lemma boundState_state2:
  "boundState svd_of_zero no_correction state2 free0 False (Fin 0) plane_surface False =
     (Returns (Inr (BoundTrackParameters plane_surface bound0
                      (Some (Identity 6)),
                    Identity 6, Fin 0, VectorZero 6, Zero 6 6)),
      state2)"
  by (simp add: boundState_def Let_def plane_surface_conversion no_correction_def
        state2_def state1_def Identity6_not_Zero)

text \<open>The plane with the identity as incoming bound covariance.\<close>

theorem covariance_present_iff_nonzero_witness:
  "boundState svd_of_zero no_correction state2 free0 False (Fin 0) plane_surface False =
     (Returns (Inr (BoundTrackParameters plane_surface bound0
                      (Some (Identity 6)),
                    Identity 6, Fin 0, VectorZero 6, Zero 6 6)),
      state2)
   \<and> covariance (BoundTrackParameters plane_surface bound0
                    (Some (Identity 6)))
       = Some (boundCovariance state2)
   \<and> boundCovariance state2 \<noteq> Zero 6 6"
  using covariance_present_iff_nonzero
    [of "Fin 0" state2 free0 "Fin 0" svd_of_zero no_correction plane_surface False
       "(BoundTrackParameters plane_surface bound0
           (Some (Identity 6)),
         Identity 6, Fin 0, VectorZero 6, Zero 6 6)" state2]
    boundState_state2
  by simp

text \<open>
  Claim C4 fails for a call without covariance transport whose incoming bound covariance
  is not zero: the returned covariance is present.
\<close>

theorem curvilinearState_covariance_without_transport:
  "curvilinearCovariance
     (fst (fst (curvilinearState (Fin (999995 / 1000000)) state2 free0 False (Fin 0))))
     = Some (Identity 6)"
  by (simp add: curvilinearState_def Let_def state2_def Identity6_not_Zero)

text \<open>
  Claim C9: \<open>boundState\<close> reads \<open>boundCov.value()\<close> as soon as the conversion has
  succeeded. Called without covariance transport and with the zero matrix as incoming
  bound covariance, the covariance is absent at that read, and the call is left by
  \<open>bad_optional_access\<close>.
\<close>

theorem boundState_bad_optional_access:
  assumes "transformFreeToBoundParameters S fp = Inr bv" and "boundCovariance st = Zero 6 6"
  shows "boundState svd cf st fp False path S nl = (Throws bad_optional_access, st)"
  using assms by (simp add: boundState_def Let_def)

text \<open>The plane with the zero matrix as incoming bound covariance.\<close>

theorem boundState_bad_optional_access_witness:
  "transformFreeToBoundParameters plane_surface free0
     = Inr bound0
   \<and> boundCovariance state1 = Zero 6 6
   \<and> boundState svd_of_zero no_correction state1 free0 False (Fin 0) plane_surface False
        = (Throws bad_optional_access, state1)"
  using boundState_bad_optional_access
      [OF plane_surface_conversion, of state1 svd_of_zero no_correction "Fin 0" False]
    plane_surface_conversion
  by (simp add: state1_def)

end
